theory Spec2Isabelle
  imports Main "HOL-Library.AList"
begin

section \<open>JavaScript values\<close>

text \<open>
  The records that flow through \<^verbatim>\<open>src/lib/remote.js\<close> are plain JavaScript data.
  A value is a scalar, an object or an array. An object or array is either held in place
  (\<open>JObj\<close>, \<open>JArr\<close>: the value has this one holder, as an object literal or a freshly
  created container has) or it lives in the store and is referred to (\<open>JRef\<close>, \<open>JArrRef\<close>:
  several fields and records may refer to the same one). An array has its elements (a
  hole reads as \<^verbatim>\<open>undefined\<close>) and, like any JavaScript array, may carry named
  properties of its own. Numbers are modelled by the integers together with \<open>NaN\<close>.
\<close>

type_synonym ref = nat

datatype jsval =
    JUndefined
  | JNull
  | JBool bool
  | JNum int
  | JNaN
  | JStr string
  | JObj "(string \<times> jsval) list"
  | JArr "jsval list" "(string \<times> jsval) list"
  | JRef ref
  | JArrRef ref

type_synonym fields = "(string \<times> jsval) list"

text \<open>The errors that can be thrown, or can reject a promise, in the model.\<close>

datatype err =
    InvalidOption string jsval
      \<comment> \<open>\<^verbatim>\<open>'Invalid option ' + k + ' in joint config: ' + options[k]\<close>\<close>
  | CheckOptionsError
      \<comment> \<open>whatever \<^verbatim>\<open>checkOptions\<close> throws\<close>
  | UnableToLocateParent jsval
      \<comment> \<open>\<^verbatim>\<open>'Unable to locate parent id ' + String(parentKey)\<close>\<close>
  | NoExternalIdYet jsval
      \<comment> \<open>\<^verbatim>\<open>'Parent ' + String(parentKey) + ' does not have an external id yet'\<close>\<close>
  | TypeError
      \<comment> \<open>a property written on a primitive, or a member read from \<^verbatim>\<open>undefined\<close>\<close>
  | RangeError
      \<comment> \<open>an invalid array length; unbounded recursion\<close>
  | External nat
      \<comment> \<open>a failure raised by a collaborator (a collection, a wrapped transform)\<close>

text \<open>JavaScript truthiness: what \<^verbatim>\<open>if(x)\<close> and \<^verbatim>\<open>!x\<close> test.\<close>

fun truthy :: "jsval \<Rightarrow> bool" where
  "truthy JUndefined = False"
| "truthy JNull = False"
| "truthy (JBool b) = b"
| "truthy (JNum n) = (n \<noteq> 0)"
| "truthy JNaN = False"
| "truthy (JStr s) = (s \<noteq> [])"
| "truthy (JObj kvs) = True"
| "truthy (JArr es ps) = True"
| "truthy (JRef r) = True"
| "truthy (JArrRef r) = True"

text \<open>\<^verbatim>\<open>typeof x === 'string'\<close>\<close>

fun is_string :: "jsval \<Rightarrow> bool" where
  "is_string (JStr s) = True"
| "is_string _ = False"

section \<open>The store\<close>

text \<open>
  Three kinds of objects are shared between the joint and its caller and are mutated in
  place: the arrays of field names named in the options, the records handed to the
  enhanced transforms, and the objects and arrays nested in those records. They live in
  a store, addressed by reference: \<open>arrays\<close> holds the arrays of field names, \<open>objects\<close>
  the plain objects (a record is one), \<open>lists\<close> the arrays of values, each with its
  elements and its named properties.
\<close>

record heap =
  arrays :: "ref \<Rightarrow> string list"
  objects :: "ref \<Rightarrow> fields"
  lists :: "ref \<Rightarrow> jsval list \<times> fields"

text \<open>The object or array a value stands for.\<close>

fun deref :: "heap \<Rightarrow> jsval \<Rightarrow> jsval" where
  "deref h (JRef r) = JObj (objects h r)"
| "deref h (JArrRef r) = JArr (fst (lists h r)) (snd (lists h r))"
| "deref h v = v"

text \<open>
  The array behind the variable \<^verbatim>\<open>parentFields\<close>: the caller's array when the option was
  given, or the array of the defaults object (\<^verbatim>\<open>parentFields: []\<close>), which only the joint
  can reach.
\<close>

datatype arr = Shared ref | Private "string list"

fun read_arr :: "heap \<Rightarrow> arr \<Rightarrow> string list" where
  "read_arr h (Shared r) = arrays h r"
| "read_arr h (Private xs) = xs"

text \<open>\<^verbatim>\<open>a.push(x)\<close>: the array itself grows; every holder of the reference sees it.\<close>

fun push :: "heap \<Rightarrow> arr \<Rightarrow> string \<Rightarrow> heap \<times> arr" where
  "push h (Shared r) x = (h\<lparr>arrays := (arrays h)(r := arrays h r @ [x])\<rparr>, Shared r)"
| "push h (Private xs) x = (h, Private (xs @ [x]))"

section \<open>Properties\<close>

definition is_digit :: "char \<Rightarrow> bool" where
  "is_digit c = (c \<in> set ''0123456789'')"

definition digit_val :: "char \<Rightarrow> nat" where
  "digit_val c = of_char c - 48"

text \<open>
  A canonical natural number: \<^verbatim>\<open>'0'\<close>, \<^verbatim>\<open>'7'\<close>, \<^verbatim>\<open>'12'\<close>; digits only and no leading
  zero.
\<close>

definition canonical_nat :: "string \<Rightarrow> bool" where
  "canonical_nat k =
     (k \<noteq> [] \<and> list_all is_digit k \<and> (if hd k = CHR ''0'' then length k = 1 else True))"

definition nat_of_digits :: "string \<Rightarrow> nat" where
  "nat_of_digits k = foldl (\<lambda>n c. 10 * n + digit_val c) 0 k"

text \<open>
  An array index: a property name that is a canonical natural number below
  \<open>2\<^sup>3\<^sup>2 - 1\<close>. It addresses an element of an array or a character of a string.
\<close>

definition index_key :: "string \<Rightarrow> nat option" where
  "index_key k =
     (if canonical_nat k \<and> nat_of_digits k < 4294967295 then Some (nat_of_digits k) else None)"

text \<open>
  The own property \<open>k\<close> of a value held in place, \<^verbatim>\<open>undefined\<close> when there is none.
  Arrays own their elements, \<^verbatim>\<open>length\<close> and their named properties, strings their
  characters and \<^verbatim>\<open>length\<close>. \<^verbatim>\<open>obj[k]\<close> in the source reads the same, as long as \<open>k\<close>
  is not the name of a member inherited from a prototype (\<^verbatim>\<open>toString\<close>,
  \<^verbatim>\<open>constructor\<close>, \<^verbatim>\<open>__proto__\<close>, ...), which data records do not use as keys.
\<close>

fun getprop :: "jsval \<Rightarrow> string \<Rightarrow> jsval" where
  "getprop (JObj kvs) k = (case map_of kvs k of Some v \<Rightarrow> v | None \<Rightarrow> JUndefined)"
| "getprop (JArr es ps) k =
     (case index_key k of
        Some i \<Rightarrow> (if i < length es then es ! i else JUndefined)
      | None \<Rightarrow> (if k = ''length'' then JNum (int (length es))
                 else (case map_of ps k of Some v \<Rightarrow> v | None \<Rightarrow> JUndefined)))"
| "getprop (JStr s) k =
     (case index_key k of
        Some i \<Rightarrow> (if i < length s then JStr [s ! i] else JUndefined)
      | None \<Rightarrow> (if k = ''length'' then JNum (int (length s)) else JUndefined))"
| "getprop _ k = JUndefined"

text \<open>
  What the language itself decides and the model leaves open: whether a long digit
  string survives the round trip through a floating-point number, and which array length
  a string or an array denotes when it is assigned to \<^verbatim>\<open>length\<close> (\<^verbatim>\<open>ToNumber\<close>). The
  functions below take these two answers as a parameter, so that every statement holds
  whatever they are.
\<close>

record js =
  roundtrips :: "string \<Rightarrow> bool"
  length_of :: "heap \<Rightarrow> jsval \<Rightarrow> nat option"

text \<open>
  \<^verbatim>\<open>arr.length = v\<close>: the new length, if \<open>v\<close> denotes one. \<^verbatim>\<open>null\<close> and booleans
  convert to \<open>0\<close> and \<open>1\<close>, a number must be an integer from \<open>0\<close> to \<open>2\<^sup>3\<^sup>2 - 1\<close>,
  \<^verbatim>\<open>undefined\<close>, \<open>NaN\<close> and plain objects denote none.
\<close>

fun array_length :: "js \<Rightarrow> heap \<Rightarrow> jsval \<Rightarrow> nat option" where
  "array_length e h JNull = Some 0"
| "array_length e h (JBool b) = Some (if b then 1 else 0)"
| "array_length e h (JNum n) = (if 0 \<le> n \<and> n < 4294967296 then Some (nat n) else None)"
| "array_length e h (JStr s) = length_of e h (JStr s)"
| "array_length e h (JArr es ps) = length_of e h (JArr es ps)"
| "array_length e h (JArrRef r) = length_of e h (JArrRef r)"
| "array_length e h _ = None"

text \<open>\<^verbatim>\<open>arr[i] = v\<close> for an index: the element is replaced, or the array grows up to it.\<close>

definition set_elem :: "jsval list \<Rightarrow> nat \<Rightarrow> jsval \<Rightarrow> jsval list" where
  "set_elem es i v =
     (if i < length es then es[i := v] else es @ replicate (i - length es) JUndefined @ [v])"

text \<open>\<^verbatim>\<open>arr[k] = v\<close> on an array, given as its elements and named properties.\<close>

definition put_array ::
    "js \<Rightarrow> heap \<Rightarrow> jsval list \<times> fields \<Rightarrow> string \<Rightarrow> jsval \<Rightarrow> err + jsval list \<times> fields" where
  "put_array e h a k v =
     (case index_key k of
        Some i \<Rightarrow> Inr (set_elem (fst a) i v, snd a)
      | None \<Rightarrow>
          (if k = ''length'' then
             (case array_length e h v of
                None \<Rightarrow> Inl RangeError
              | Some n \<Rightarrow> Inr (take n (fst a) @ replicate (n - length (fst a)) JUndefined, snd a))
           else Inr (fst a, AList.update k v (snd a))))"

text \<open>
  \<^verbatim>\<open>obj[k] = v\<close> in strict mode: the store and the holder afterwards. A referred object
  changes in the store, a value held in place changes where it is; a scalar, \<^verbatim>\<open>null\<close>
  and \<^verbatim>\<open>undefined\<close> take no property.
\<close>

fun assign :: "js \<Rightarrow> heap \<Rightarrow> jsval \<Rightarrow> string \<Rightarrow> jsval \<Rightarrow> err + heap \<times> jsval" where
  "assign e h (JRef r) k v =
     Inr (h\<lparr>objects := (objects h)(r := AList.update k v (objects h r))\<rparr>, JRef r)"
| "assign e h (JArrRef r) k v =
     (case put_array e h (lists h r) k v of
        Inl x \<Rightarrow> Inl x
      | Inr a \<Rightarrow> Inr (h\<lparr>lists := (lists h)(r := a)\<rparr>, JArrRef r))"
| "assign e h (JObj kvs) k v = Inr (h, JObj (AList.update k v kvs))"
| "assign e h (JArr es ps) k v =
     (case put_array e h (es, ps) k v of
        Inl x \<Rightarrow> Inl x
      | Inr a \<Rightarrow> Inr (h, JArr (fst a) (snd a)))"
| "assign e h _ k v = Inl TypeError"

text \<open>
  The value a holder has at \<open>k\<close> was changed where it is held: the holder with that
  value put back. Only used for a \<open>k\<close> the holder has.
\<close>

fun put_back :: "heap \<Rightarrow> jsval \<Rightarrow> string \<Rightarrow> jsval \<Rightarrow> heap \<times> jsval" where
  "put_back h (JRef r) k c =
     (h\<lparr>objects := (objects h)(r := AList.update k c (objects h r))\<rparr>, JRef r)"
| "put_back h (JArrRef r) k c =
     (h\<lparr>lists := (lists h)(r :=
          (case index_key k of
             Some i \<Rightarrow> (set_elem (fst (lists h r)) i c, snd (lists h r))
           | None \<Rightarrow> (fst (lists h r), AList.update k c (snd (lists h r)))))\<rparr>,
      JArrRef r)"
| "put_back h (JObj kvs) k c = (h, JObj (AList.update k c kvs))"
| "put_back h (JArr es ps) k c =
     (h, (case index_key k of
            Some i \<Rightarrow> JArr (set_elem es i c) ps
          | None \<Rightarrow> JArr es (AList.update k c ps)))"
| "put_back h v k c = (h, v)"

section \<open>The path library: \<^verbatim>\<open>objectPath.get\<close> and \<^verbatim>\<open>objectPath.set\<close>\<close>

text \<open>
  \<^verbatim>\<open>remote.js\<close> reads and writes the foreign key through the \<^verbatim>\<open>object-path\<close>
  package, so \<^verbatim>\<open>lookupField\<close> may be a dotted path. The package is a dependency, not
  part of the repository; the definitions below follow its published algorithm:
  a string path is split at the dots, \<^verbatim>\<open>get\<close> walks own properties and gives
  \<^verbatim>\<open>undefined\<close> as soon as one is missing, \<^verbatim>\<open>set\<close> creates the missing intermediate
  containers and assigns the last segment. An empty path string is falsy, so \<^verbatim>\<open>get\<close>
  returns the object itself and \<^verbatim>\<open>set\<close> does nothing.
\<close>

fun split_on :: "char \<Rightarrow> string \<Rightarrow> string list" where
  "split_on c [] = [[]]"
| "split_on c (x # xs) =
     (if x = c then [] # split_on c xs
      else (case split_on c xs of
              [] \<Rightarrow> [[x]]
            | w # ws \<Rightarrow> (x # w) # ws))"

text \<open>
  \<^verbatim>\<open>getKey\<close> turns a segment into a number when \<^verbatim>\<open>parseInt(key).toString() === key\<close>:
  for \<^verbatim>\<open>'NaN'\<close> and for a canonical integer (\<^verbatim>\<open>'0'\<close>, \<^verbatim>\<open>'12'\<close>, \<^verbatim>\<open>'-3'\<close>; not
  \<^verbatim>\<open>'007'\<close>, \<^verbatim>\<open>'-0'\<close>, \<^verbatim>\<open>'+1'\<close>) that survives the round trip through a number. Up to
  fifteen characters every canonical integer does. The number is only ever used as a
  property name, which is the segment again; what matters is \<^verbatim>\<open>typeof\<close>.
\<close>

definition canonical_int :: "string \<Rightarrow> bool" where
  "canonical_int k =
     (case k of
        [] \<Rightarrow> False
      | c # cs \<Rightarrow> (if c = CHR ''-'' then canonical_nat cs \<and> cs \<noteq> ''0'' else canonical_nat k))"

definition key_is_number :: "js \<Rightarrow> string \<Rightarrow> bool" where
  "key_is_number e k =
     (k = ''NaN'' \<or> (canonical_int k \<and> (length k \<le> 15 \<or> roundtrips e k)))"

text \<open>\<^verbatim>\<open>getShallowProperty\<close>: an own property or \<^verbatim>\<open>undefined\<close>.\<close>

definition getShallowProperty :: "heap \<Rightarrow> jsval \<Rightarrow> string \<Rightarrow> jsval" where
  "getShallowProperty h obj k = getprop (deref h obj) k"

fun get_path :: "heap \<Rightarrow> jsval \<Rightarrow> string list \<Rightarrow> jsval" where
  "get_path h obj [] = obj"
| "get_path h obj (k # ks) =
     (if obj = JUndefined \<or> obj = JNull then JUndefined
      else (let nextObj = getShallowProperty h obj k in
            if nextObj = JUndefined then JUndefined
            else if ks = [] then nextObj
            else get_path h nextObj ks))"

definition objectPath_get :: "heap \<Rightarrow> jsval \<Rightarrow> string \<Rightarrow> jsval" where
  "objectPath_get h obj path =
     (if path = [] then obj else get_path h obj (split_on CHR ''.'' path))"

text \<open>
  \<^verbatim>\<open>set\<close> walks the path and mutates what it finds: the result is the store afterwards
  and the object it was called on. A missing container is created (an array when the
  next segment is a number, an object otherwise), assigned, and the rest of the path is
  set inside it. Where the walk passes through a value held in place and changes it,
  the changed value is put back into its holder; where it passes through a reference,
  the change is in the store already.
\<close>

fun set_path :: "js \<Rightarrow> heap \<Rightarrow> jsval \<Rightarrow> string list \<Rightarrow> jsval \<Rightarrow> err + heap \<times> jsval" where
  "set_path e h obj [] v = Inr (h, obj)"
| "set_path e h obj [k] v = assign e h obj k v"
| "set_path e h obj (k # k' # ks) v =
     (let currentValue = getShallowProperty h obj k in
      if currentValue = JUndefined then
        (let created = (if key_is_number e k' then JArr [] [] else JObj []) in
         case assign e h obj k created of
           Inl x \<Rightarrow> Inl x
         | Inr (h1, obj1) \<Rightarrow>
            (case set_path e h1 created (k' # ks) v of
               Inl x \<Rightarrow> Inl x
             | Inr (h2, child) \<Rightarrow> Inr (put_back h2 obj1 k child)))
      else
        (case set_path e h currentValue (k' # ks) v of
           Inl x \<Rightarrow> Inl x
         | Inr (h1, child) \<Rightarrow>
            (if child = currentValue then Inr (h1, obj)
             else Inr (put_back h1 obj k child))))"

definition objectPath_set :: "js \<Rightarrow> heap \<Rightarrow> jsval \<Rightarrow> string \<Rightarrow> jsval \<Rightarrow> err + heap \<times> jsval" where
  "objectPath_set e h obj path v =
     (if path = [] then Inr (h, obj) else set_path e h obj (split_on CHR ''.'' path) v)"

section \<open>Collaborators of \<^verbatim>\<open>remote.js\<close>\<close>

text \<open>
  Modelled from the spec: \<^verbatim>\<open>extractNamedFields\<close> (\<^verbatim>\<open>src/lib/extractNamedFields.js\<close> is
  not among the sources). The spec: "given a record and a set of field names, returns a
  mapping containing only those fields (pass-through if absent)". The result is a fresh
  object holding, for each listed name the record has, the record's value; a name the
  record lacks is passed over.
\<close>

definition extractNamedFields :: "jsval \<Rightarrow> string list \<Rightarrow> jsval" where
  "extractNamedFields rec names =
     JObj (fold (\<lambda>k acc. case rec of
                    JObj kvs \<Rightarrow> (case map_of kvs k of
                                   Some v \<Rightarrow> AList.update k v acc
                                 | None \<Rightarrow> acc)
                  | _ \<Rightarrow> acc) names [])"

text \<open>
  The options object passed to \<^verbatim>\<open>joint\<close>. The three options the source checks with
  \<^verbatim>\<open>typeof\<close> are arbitrary values; \<^verbatim>\<open>parentFields\<close> and \<^verbatim>\<open>relatedListFields\<close> are
  references to arrays owned by the caller (or absent); the two collections are the
  \<open>collections\<close> record below.
\<close>

record options =
  opt_childEntity :: jsval
  opt_parentEntity :: jsval
  opt_lookupField :: jsval
  opt_parentFieldName :: string
  opt_parentFields :: "ref option"
  opt_relatedListName :: "string option"
  opt_relatedListFields :: "ref option"

text \<open>
  Modelled from the spec: \<^verbatim>\<open>checkOptions\<close> (\<^verbatim>\<open>src/lib/checkOptions.js\<close> is not among
  the sources). The spec: "verifies option combinations (e.g., relatedListFields required
  when relatedListName is given) and fails fast with a descriptive error". It reads the
  options and either throws or returns.
\<close>

definition checkOptions :: "options \<Rightarrow> err + unit" where
  "checkOptions opts =
     (case opt_relatedListName opts of
        Some n \<Rightarrow> (if n \<noteq> [] \<and> opt_relatedListFields opts = None
                   then Inl CheckOptionsError else Inr ())
      | None \<Rightarrow> Inr ())"

text \<open>
  A promise that has settled, and the completion of a call that returns one.
\<close>

datatype 'a promise = Resolved 'a | Rejected err

datatype 'a completion = Throws err | Returns 'a

text \<open>
  The capability surface of the two collections (section 6 of the spec). The getters
  return field names; every other operation returns a promise, and what it settles to is
  up to the collection. One hook invocation issues each operation at most once, so a
  function from the arguments to the settled promise describes the collection fully.
\<close>

record collections =
  parent_getKeyField :: string
  parent_getLocalKeyField :: string
  child_getLocalKeyField :: string
  parent_get :: "jsval \<Rightarrow> jsval promise"
  child_find :: "jsval \<Rightarrow> jsval list promise"
  child_update :: "jsval \<Rightarrow> jsval \<Rightarrow> jsval promise"
  parent_update :: "jsval \<Rightarrow> jsval \<Rightarrow> jsval promise"
  parent_addOrUpdateChildInCollection ::
    "jsval \<Rightarrow> string \<Rightarrow> jsval \<Rightarrow> string \<Rightarrow> jsval promise"
  parent_removeChildFromCollection :: "jsval \<Rightarrow> string \<Rightarrow> jsval \<Rightarrow> jsval promise"

text \<open>
  What the joint does to the outside world, in order: the calls it makes on the two
  collections, with their arguments in the positions the source passes them, and the
  warning it logs.
\<close>

datatype call =
    ParentGetKeyField
  | ParentGetLocalKeyField
  | ChildGetLocalKeyField
  | ParentGet jsval
  | ChildFind jsval
  | ChildUpdate jsval jsval
  | ParentUpdate jsval jsval
  | ParentAddOrUpdateChildInCollection jsval string jsval string
  | ParentRemoveChildFromCollection jsval string jsval
  | ConsoleWarn string jsval

text \<open>The calls that ask a collection to change its records.\<close>

fun mutates_collection :: "call \<Rightarrow> bool" where
  "mutates_collection (ChildUpdate a b) = True"
| "mutates_collection (ParentUpdate a b) = True"
| "mutates_collection (ParentAddOrUpdateChildInCollection a n e k) = True"
| "mutates_collection (ParentRemoveChildFromCollection a n e) = True"
| "mutates_collection _ = False"

section \<open>The joint\<close>

text \<open>
  The variables of \<^verbatim>\<open>joint\<close> that its closures capture: the destructured options and
  \<^verbatim>\<open>parentKeyField\<close>.
\<close>

record scope =
  lookupField :: string
  parentFieldName :: string
  parentFields :: arr
  parentEntity :: string
  parentKeyField :: string

text \<open>
  The constants of the block \<^verbatim>\<open>if(relatedListName) { ... }\<close>, captured by the closures
  defined inside it.
\<close>

record related =
  relatedListName :: string
  relatedListFields :: ref
  childKeyField :: string

text \<open>
  The four function values the source creates for the hook slots: the function of line 58,
  the one of line 113 (shared by \<^verbatim>\<open>onChildUpdated\<close> and \<^verbatim>\<open>onChildInserted\<close>), the one of
  line 123 and the one of line 131. Two slots hold the same function exactly when they hold
  the same value of this type.
\<close>

datatype hook =
    BaseOnParentInserted
  | OnChildUpsert related
  | OnChildRemoved related
  | RelatedOnParentInserted related

text \<open>
  The object \<^verbatim>\<open>j\<close>. A slot the source never assigns is \<open>None\<close>. \<^verbatim>\<open>enhanceCleanse\<close> and
  \<^verbatim>\<open>enhancePrepare\<close> are always present and are the functions of the same name below,
  applied to \<open>j_scope\<close>.
\<close>

record joint =
  j_childEntity :: string
  j_parentEntity :: string
  j_onParentInserted :: hook
  j_onParentUpdated :: "hook option"
  j_onChildInserted :: "hook option"
  j_onChildUpdated :: "hook option"
  j_onChildRemoved :: "hook option"
  j_scope :: scope

text \<open>
  What one invocation of a hook does: the calls it makes, the promises it obtains and
  then lets go of (neither returned nor chained into what it returns, so that nobody can
  observe how they settle), and what it returns.
\<close>

datatype hookret = Threw err | RetUndefined | RetPromise "jsval promise"

record hook_result =
  calls :: "call list"
  dropped :: "jsval promise list"
  returned :: hookret

text \<open>Lines 58-61: the first \<^verbatim>\<open>j.onParentInserted\<close>.\<close>

definition onParentInserted_base :: "collections \<Rightarrow> heap \<Rightarrow> scope \<Rightarrow> fields \<Rightarrow> hook_result" where
  "onParentInserted_base cs h s parent =
     (let a = JObj [(parentFieldName s,
                     extractNamedFields (JObj parent) (read_arr h (parentFields s)))];
          b = JObj [(lookupField s, getprop (JObj parent) (parentKeyField s))]
      in \<lparr>calls = [ChildUpdate a b], dropped = [child_update cs a b], returned = RetUndefined\<rparr>)"

text \<open>Lines 113-122: \<^verbatim>\<open>j.onChildUpdated = j.onChildInserted\<close>.\<close>

definition onChildInserted :: "collections \<Rightarrow> heap \<Rightarrow> scope \<Rightarrow> related \<Rightarrow> fields \<Rightarrow> hook_result" where
  "onChildInserted cs h s rl child =
     (if truthy (objectPath_get h (JObj child) (lookupField s)) then
        (let q = JObj [(parentKeyField s, objectPath_get h (JObj child) (lookupField s))];
             e = extractNamedFields (JObj child) (arrays h (relatedListFields rl))
         in \<lparr>calls = [ParentAddOrUpdateChildInCollection q (relatedListName rl) e (childKeyField rl)],
             dropped = [],
             returned = RetPromise (parent_addOrUpdateChildInCollection cs q
                                      (relatedListName rl) e (childKeyField rl))\<rparr>)
      else \<lparr>calls = [], dropped = [], returned = RetUndefined\<rparr>)"

text \<open>Lines 123-130.\<close>

definition onChildRemoved :: "collections \<Rightarrow> heap \<Rightarrow> scope \<Rightarrow> related \<Rightarrow> fields \<Rightarrow> hook_result" where
  "onChildRemoved cs h s rl child =
     (if truthy (objectPath_get h (JObj child) (lookupField s)) then
        (let q = JObj [(parentKeyField s, objectPath_get h (JObj child) (lookupField s))];
             c = JObj [(childKeyField rl, getprop (JObj child) (childKeyField rl))]
         in \<lparr>calls = [ParentRemoveChildFromCollection q (relatedListName rl) c],
             dropped = [],
             returned = RetPromise (parent_removeChildFromCollection cs q (relatedListName rl) c)\<rparr>)
      else \<lparr>calls = [], dropped = [], returned = RetUndefined\<rparr>)"

text \<open>
  Calling the function in the slot \<^verbatim>\<open>j.onParentUpdated\<close> from inside the function of
  line 131. The source only ever stores the function of line 58 there; were the slot to
  hold the function of line 131 itself, the call would recurse without bound.
\<close>

fun call_delegate :: "collections \<Rightarrow> heap \<Rightarrow> scope \<Rightarrow> hook \<Rightarrow> fields \<Rightarrow> hook_result" where
  "call_delegate cs h s BaseOnParentInserted x = onParentInserted_base cs h s x"
| "call_delegate cs h s (OnChildUpsert rl) x = onChildInserted cs h s rl x"
| "call_delegate cs h s (OnChildRemoved rl) x = onChildRemoved cs h s rl x"
| "call_delegate cs h s (RelatedOnParentInserted rl) x =
     \<lparr>calls = [], dropped = [], returned = Threw RangeError\<rparr>"

text \<open>The promises among the values an expression statement discards.\<close>

fun discarded :: "hookret \<Rightarrow> jsval promise list" where
  "discarded (RetPromise p) = [p]"
| "discarded _ = []"

text \<open>
  Lines 131-142: the second \<^verbatim>\<open>j.onParentInserted\<close>. The value of
  \<^verbatim>\<open>j.onParentUpdated(parent)\<close> is discarded; the promise of \<^verbatim>\<open>find\<close>, chained with
  \<^verbatim>\<open>then\<close>, is returned.
\<close>

definition onParentInserted_related ::
    "collections \<Rightarrow> heap \<Rightarrow> joint \<Rightarrow> related \<Rightarrow> fields \<Rightarrow> hook_result" where
  "onParentInserted_related cs h j rl parent =
     (let s = j_scope j;
          d = (case j_onParentUpdated j of
                 None \<Rightarrow> \<lparr>calls = [], dropped = [], returned = RetUndefined\<rparr>
               | Some f \<Rightarrow> call_delegate cs h s f parent)
      in case returned d of
           Threw e \<Rightarrow> d
         | _ \<Rightarrow>
           (if relatedListName rl \<noteq> [] then
              (let q = JObj [(lookupField s, getprop (JObj parent) (parentKeyField s))] in
               case child_find cs q of
                 Rejected e \<Rightarrow>
                   \<lparr>calls = calls d @ [ChildFind q],
                    dropped = dropped d @ discarded (returned d),
                    returned = RetPromise (Rejected e)\<rparr>
               | Resolved recs \<Rightarrow>
                   (if length recs > 0 then
                      (let children = map (\<lambda>r. extractNamedFields (deref h r)
                                             (arrays h (relatedListFields rl))) recs;
                           a = JObj [(relatedListName rl, JArr children [])];
                           b = JObj [(parentKeyField s, getprop (JObj parent) (parentKeyField s))]
                       in \<lparr>calls = calls d @ [ChildFind q, ParentUpdate a b],
                           dropped = dropped d @ discarded (returned d),
                           returned = RetPromise (parent_update cs a b)\<rparr>)
                    else
                      \<lparr>calls = calls d @ [ChildFind q],
                       dropped = dropped d @ discarded (returned d),
                       returned = RetPromise (Resolved JUndefined)\<rparr>))
            else
              \<lparr>calls = calls d, dropped = dropped d @ discarded (returned d),
               returned = RetUndefined\<rparr>))"

text \<open>Invoking the function found in a slot of \<open>j\<close>.\<close>

fun run_hook :: "collections \<Rightarrow> heap \<Rightarrow> joint \<Rightarrow> hook \<Rightarrow> fields \<Rightarrow> hook_result" where
  "run_hook cs h j BaseOnParentInserted x = onParentInserted_base cs h (j_scope j) x"
| "run_hook cs h j (OnChildUpsert rl) x = onChildInserted cs h (j_scope j) rl x"
| "run_hook cs h j (OnChildRemoved rl) x = onChildRemoved cs h (j_scope j) rl x"
| "run_hook cs h j (RelatedOnParentInserted rl) x = onParentInserted_related cs h j rl x"

text \<open>The hooks as a caller invokes them: \<^verbatim>\<open>j.onParentInserted(parent)\<close> and so on.\<close>

definition onParentInserted :: "collections \<Rightarrow> heap \<Rightarrow> joint \<Rightarrow> fields \<Rightarrow> hook_result" where
  "onParentInserted cs h j parent = run_hook cs h j (j_onParentInserted j) parent"

subsection \<open>Construction\<close>

record construction =
  k_heap :: heap
  k_calls :: "call list"
  k_out :: "err + joint"

fun the_string :: "jsval \<Rightarrow> string" where
  "the_string (JStr s) = s"
| "the_string _ = []"

text \<open>
  Lines 32-56 and 105-144. \<^verbatim>\<open>Object.assign\<close> copies the options over the defaults
  object, so the variable \<^verbatim>\<open>parentFields\<close> is the caller's array when the option is
  present and the fresh \<^verbatim>\<open>[]\<close> otherwise; the same holds for \<^verbatim>\<open>relatedListFields\<close>,
  which has no default.
\<close>

definition joint :: "collections \<Rightarrow> heap \<Rightarrow> options \<Rightarrow> construction" where
  "joint cs h opts =
     (if \<not> is_string (opt_childEntity opts) then
        \<lparr>k_heap = h, k_calls = [],
         k_out = Inl (InvalidOption ''childEntity'' (opt_childEntity opts))\<rparr>
      else if \<not> is_string (opt_parentEntity opts) then
        \<lparr>k_heap = h, k_calls = [],
         k_out = Inl (InvalidOption ''parentEntity'' (opt_parentEntity opts))\<rparr>
      else if \<not> is_string (opt_lookupField opts) then
        \<lparr>k_heap = h, k_calls = [],
         k_out = Inl (InvalidOption ''lookupField'' (opt_lookupField opts))\<rparr>
      else
       (case checkOptions opts of
          Inl e \<Rightarrow> \<lparr>k_heap = h, k_calls = [], k_out = Inl e\<rparr>
        | Inr u \<Rightarrow>
           (let (h1, pf) = push h (case opt_parentFields opts of
                                     Some r \<Rightarrow> Shared r
                                   | None \<Rightarrow> Private [])
                                  (parent_getLocalKeyField cs);
                s = \<lparr>lookupField = the_string (opt_lookupField opts),
                     parentFieldName = opt_parentFieldName opts,
                     parentFields = pf,
                     parentEntity = the_string (opt_parentEntity opts),
                     parentKeyField = parent_getKeyField cs\<rparr>;
                j0 = \<lparr>j_childEntity = the_string (opt_childEntity opts),
                      j_parentEntity = the_string (opt_parentEntity opts),
                      j_onParentInserted = BaseOnParentInserted,
                      j_onParentUpdated = None,
                      j_onChildInserted = None,
                      j_onChildUpdated = None,
                      j_onChildRemoved = None,
                      j_scope = s\<rparr>;
                j1 = (if length (read_arr h1 pf) > 1
                      then j0\<lparr>j_onParentUpdated := Some (j_onParentInserted j0)\<rparr>
                      else j0)
            in case opt_relatedListName opts of
                 None \<Rightarrow>
                   \<lparr>k_heap = h1, k_calls = [ParentGetKeyField, ParentGetLocalKeyField],
                    k_out = Inr j1\<rparr>
               | Some n \<Rightarrow>
                   (if n = [] then
                      \<lparr>k_heap = h1, k_calls = [ParentGetKeyField, ParentGetLocalKeyField],
                       k_out = Inr j1\<rparr>
                    else
                      (case opt_relatedListFields opts of
                         None \<Rightarrow>
                           \<lparr>k_heap = h1,
                            k_calls = [ParentGetKeyField, ParentGetLocalKeyField,
                                       ChildGetLocalKeyField],
                            k_out = Inl TypeError\<rparr>
                       | Some rf \<Rightarrow>
                           (let rl = \<lparr>relatedListName = n, relatedListFields = rf,
                                      childKeyField = child_getLocalKeyField cs\<rparr>
                            in \<lparr>k_heap = fst (push h1 (Shared rf) (child_getLocalKeyField cs)),
                                k_calls = [ParentGetKeyField, ParentGetLocalKeyField,
                                           ChildGetLocalKeyField],
                                k_out = Inr (j1\<lparr>j_onChildUpdated := Some (OnChildUpsert rl),
                                                j_onChildInserted := Some (OnChildUpsert rl),
                                                j_onChildRemoved := Some (OnChildRemoved rl),
                                                j_onParentInserted :=
                                                  RelatedOnParentInserted rl\<rparr>)\<rparr>))))))"

section \<open>The enhanced transforms\<close>

text \<open>
  A wrapped transform is the caller's code: given the store and a reference to a record
  (and, for \<^verbatim>\<open>prepare\<close>, the action) it may change the store, and it throws, or returns a
  record or a promise of one. \<^verbatim>\<open>Promise.resolve\<close> turns a returned record into a promise
  resolved with it, so both are \<open>Returns (Resolved r)\<close> here.
\<close>

type_synonym cleanse = "heap \<Rightarrow> ref \<Rightarrow> heap \<times> ref promise completion"

type_synonym prepare = "heap \<Rightarrow> ref \<Rightarrow> jsval \<Rightarrow> heap \<times> ref promise completion"

record transform_result =
  t_heap :: heap
  t_calls :: "call list"
  t_out :: "ref promise completion"

text \<open>\<^verbatim>\<open>cleanse ? cleanse(record) : record\<close> and \<^verbatim>\<open>prepare ? prepare(record, action) : record\<close>.\<close>

definition wrapped_cleanse :: "cleanse option \<Rightarrow> heap \<Rightarrow> ref \<Rightarrow> heap \<times> ref promise completion" where
  "wrapped_cleanse cleanse h record =
     (case cleanse of Some f \<Rightarrow> f h record | None \<Rightarrow> (h, Returns (Resolved record)))"

definition wrapped_prepare ::
    "prepare option \<Rightarrow> heap \<Rightarrow> ref \<Rightarrow> jsval \<Rightarrow> heap \<times> ref promise completion" where
  "wrapped_prepare prepare h record action =
     (case prepare of Some f \<Rightarrow> f h record action | None \<Rightarrow> (h, Returns (Resolved record)))"

text \<open>
  Lines 65-77: the callback of \<^verbatim>\<open>then\<close> in \<^verbatim>\<open>enhanceCleanse\<close>. The parent comes from
  the collection; the snapshot is a fresh object, held by the record alone.
\<close>

definition cleanse_then :: "collections \<Rightarrow> scope \<Rightarrow> heap \<Rightarrow> ref \<Rightarrow> transform_result" where
  "cleanse_then cs s h cleaned =
     (if \<not> truthy (objectPath_get h (JRef cleaned) (lookupField s)) then
        \<lparr>t_heap = h, t_calls = [], t_out = Returns (Resolved cleaned)\<rparr>
      else
       (let lookupId = objectPath_get h (JRef cleaned) (lookupField s);
            q = JObj [(parentKeyField s, lookupId)]
        in case parent_get cs q of
             Rejected e \<Rightarrow> \<lparr>t_heap = h, t_calls = [ParentGet q], t_out = Returns (Rejected e)\<rparr>
           | Resolved parent \<Rightarrow>
              (if truthy parent then
                 \<lparr>t_heap = h\<lparr>objects := (objects h)
                             (cleaned := AList.update (parentFieldName s)
                                (extractNamedFields (deref h parent) (read_arr h (parentFields s)))
                                (objects h cleaned))\<rparr>,
                  t_calls = [ParentGet q],
                  t_out = Returns (Resolved cleaned)\<rparr>
               else
                 \<lparr>t_heap = h,
                  t_calls = [ParentGet q, ConsoleWarn (parentEntity s) lookupId],
                  t_out = Returns (Resolved cleaned)\<rparr>)))"

text \<open>Lines 63-78.\<close>

definition enhanceCleanse ::
    "collections \<Rightarrow> scope \<Rightarrow> cleanse option \<Rightarrow> heap \<Rightarrow> ref \<Rightarrow> transform_result" where
  "enhanceCleanse cs s cleanse h record =
     (case wrapped_cleanse cleanse h record of
        (h1, Throws e) \<Rightarrow> \<lparr>t_heap = h1, t_calls = [], t_out = Throws e\<rparr>
      | (h1, Returns (Rejected e)) \<Rightarrow> \<lparr>t_heap = h1, t_calls = [], t_out = Returns (Rejected e)\<rparr>
      | (h1, Returns (Resolved cleaned)) \<Rightarrow> cleanse_then cs s h1 cleaned)"

text \<open>
  \<^verbatim>\<open>objectPath.set(prepared, lookupField, v); return prepared\<close> inside a \<^verbatim>\<open>then\<close>
  callback: an exception of \<^verbatim>\<open>set\<close> rejects the promise. \<^verbatim>\<open>set\<close> throws before it
  has changed anything (\<open>set_path_created\<close> below: once it has created a container, it
  succeeds), so the store is then as it was. The value written is a key, a string or a
  number in practice; were it an object held in place, the record would hold an equal
  object rather than the same one.
\<close>

definition set_and_return ::
    "js \<Rightarrow> scope \<Rightarrow> heap \<Rightarrow> ref \<Rightarrow> jsval \<Rightarrow> call list \<Rightarrow> transform_result" where
  "set_and_return e s h prepared v cl =
     (case objectPath_set e h (JRef prepared) (lookupField s) v of
        Inl x \<Rightarrow> \<lparr>t_heap = h, t_calls = cl, t_out = Returns (Rejected x)\<rparr>
      | Inr (h', u) \<Rightarrow> \<lparr>t_heap = h', t_calls = cl, t_out = Returns (Resolved prepared)\<rparr>)"

text \<open>Lines 82-103: the callback of \<^verbatim>\<open>then\<close> in \<^verbatim>\<open>enhancePrepare\<close>.\<close>

definition prepare_then :: "js \<Rightarrow> collections \<Rightarrow> scope \<Rightarrow> heap \<Rightarrow> ref \<Rightarrow> transform_result" where
  "prepare_then e cs s h prepared =
     (let snapshot = getprop (JObj (objects h prepared)) (parentFieldName s) in
      if \<not> truthy snapshot then
        \<lparr>t_heap = h, t_calls = [], t_out = Returns (Resolved prepared)\<rparr>
      else if truthy (getprop (deref h snapshot) (parentKeyField s)) then
        set_and_return e s h prepared (getprop (deref h snapshot) (parentKeyField s)) []
      else
       (let parentKey = getprop (deref h snapshot) (parent_getLocalKeyField cs) in
        case parent_get cs parentKey of
          Rejected x \<Rightarrow>
            \<lparr>t_heap = h, t_calls = [ParentGetLocalKeyField, ParentGet parentKey],
             t_out = Returns (Rejected x)\<rparr>
        | Resolved parent \<Rightarrow>
           (if \<not> truthy parent then
              \<lparr>t_heap = h, t_calls = [ParentGetLocalKeyField, ParentGet parentKey],
               t_out = Returns (Rejected (UnableToLocateParent parentKey))\<rparr>
            else if \<not> truthy (getprop (deref h parent) (parentKeyField s)) then
              \<lparr>t_heap = h, t_calls = [ParentGetLocalKeyField, ParentGet parentKey],
               t_out = Returns (Rejected (NoExternalIdYet parentKey))\<rparr>
            else
              set_and_return e s h prepared (getprop (deref h parent) (parentKeyField s))
                [ParentGetLocalKeyField, ParentGet parentKey])))"

text \<open>Lines 80-104.\<close>

definition enhancePrepare ::
    "js \<Rightarrow> collections \<Rightarrow> scope \<Rightarrow> prepare option \<Rightarrow> heap \<Rightarrow> ref \<Rightarrow> jsval \<Rightarrow> transform_result" where
  "enhancePrepare e cs s prepare h record action =
     (case wrapped_prepare prepare h record action of
        (h1, Throws x) \<Rightarrow> \<lparr>t_heap = h1, t_calls = [], t_out = Throws x\<rparr>
      | (h1, Returns (Rejected x)) \<Rightarrow> \<lparr>t_heap = h1, t_calls = [], t_out = Returns (Rejected x)\<rparr>
      | (h1, Returns (Resolved prepared)) \<Rightarrow> prepare_then e cs s h1 prepared)"

section \<open>Vocabulary of the properties\<close>

text \<open>The asynchronous result of an enhanced transform rejects.\<close>

definition rejects :: "transform_result \<Rightarrow> bool" where
  "rejects res = (case t_out res of Returns (Rejected e) \<Rightarrow> True | _ \<Rightarrow> False)"

text \<open>
  The parent a lookup finds: the record the promise of \<^verbatim>\<open>get\<close> resolves with, when it is
  truthy. A lookup that resolves with \<^verbatim>\<open>null\<close> or \<^verbatim>\<open>undefined\<close>, or that rejects, finds
  no parent.
\<close>

fun found_parent :: "jsval promise \<Rightarrow> jsval option" where
  "found_parent (Resolved p) = (if truthy p then Some p else None)"
| "found_parent (Rejected e) = None"

text \<open>An object of the store: a plain object or an array.\<close>

datatype cell = ObjectCell ref | ListCell ref

text \<open>
  Two states of the store that differ in the object \<open>c\<close> at most: every array of field
  names, every other plain object and every other array is the same in both.
\<close>

definition only_cell_differs :: "heap \<Rightarrow> heap \<Rightarrow> cell \<Rightarrow> bool" where
  "only_cell_differs h h' c =
     (arrays h' = arrays h
      \<and> (\<forall>r. ObjectCell r \<noteq> c \<longrightarrow> objects h' r = objects h r)
      \<and> (\<forall>r. ListCell r \<noteq> c \<longrightarrow> lists h' r = lists h r))"

text \<open>
  What a step of \<^verbatim>\<open>set\<close> does to the store and to the object it works on: a referred
  object stays the reference it was and is the only object of the store that may change;
  a value held in place may change where it is held, and then the store does not.
\<close>

definition step_ok :: "heap \<Rightarrow> jsval \<Rightarrow> heap \<Rightarrow> jsval \<Rightarrow> bool" where
  "step_ok h obj h' obj' =
     (case obj of
        JRef r \<Rightarrow> obj' = obj \<and> only_cell_differs h h' (ObjectCell r)
      | JArrRef r \<Rightarrow> obj' = obj \<and> only_cell_differs h h' (ListCell r)
      | JObj kvs \<Rightarrow> h' = h \<and> (\<exists>kvs'. obj' = JObj kvs')
      | JArr es ps \<Rightarrow> h' = h \<and> (\<exists>es' ps'. obj' = JArr es' ps')
      | _ \<Rightarrow> h' = h \<and> obj' = obj)"

text \<open>
  A path that meets, before its last segment, only fields that are missing or that hold a
  plain object of their own: no scalar, no array, and no object that is referred to (and
  so may be shared with another field or another record).
\<close>

fun plain_path :: "heap \<Rightarrow> jsval \<Rightarrow> string list \<Rightarrow> bool" where
  "plain_path h obj (k # k' # ks) =
     (case getShallowProperty h obj k of
        JUndefined \<Rightarrow> True
      | JObj kvs \<Rightarrow> plain_path h (JObj kvs) (k' # ks)
      | _ \<Rightarrow> False)"
| "plain_path h obj ks = True"

text \<open>The field names the caller configured as \<^verbatim>\<open>parentFields\<close>, before construction.\<close>

definition configured_parentFields :: "heap \<Rightarrow> options \<Rightarrow> string list" where
  "configured_parentFields h opts =
     (case opt_parentFields opts of Some r \<Rightarrow> arrays h r | None \<Rightarrow> [])"

text \<open>Related-list maintenance is configured: \<^verbatim>\<open>if(relatedListName)\<close> holds.\<close>

definition related_list_configured :: "options \<Rightarrow> bool" where
  "related_list_configured opts =
     (case opt_relatedListName opts of Some n \<Rightarrow> n \<noteq> [] | None \<Rightarrow> False)"

section \<open>A worked configuration\<close>

text \<open>
  The scenario of section 8 of the spec: an account \<^verbatim>\<open>{id: 'P1', extId: 'EXT-1', name: 'Acme'}\<close>
  and a contact that refers to it through \<^verbatim>\<open>fk\<close>; the contact keeps a snapshot of the
  account under \<^verbatim>\<open>parent\<close>, the account a list of contact summaries under \<^verbatim>\<open>children\<close>.
\<close>

definition ex_parent :: fields where
  "ex_parent = [(''id'', JStr ''P1''), (''extId'', JStr ''EXT-1''), (''name'', JStr ''Acme'')]"

definition ex_child :: fields where
  "ex_child = [(''id'', JStr ''C1''), (''fk'', JStr ''EXT-1''), (''title'', JStr ''Pipe'')]"

definition ex_collections :: collections where
  "ex_collections =
     \<lparr>parent_getKeyField = ''extId'',
      parent_getLocalKeyField = ''id'',
      child_getLocalKeyField = ''id'',
      parent_get = (\<lambda>q. if q = JObj [(''extId'', JStr ''EXT-1'')] \<or> q = JStr ''P1''
                         then Resolved (JObj ex_parent) else Resolved JNull),
      child_find = (\<lambda>q. if q = JObj [(''fk'', JStr ''EXT-1'')]
                          then Resolved [JObj ex_child] else Resolved []),
      child_update = (\<lambda>a b. Resolved JUndefined),
      parent_update = (\<lambda>a b. Resolved JUndefined),
      parent_addOrUpdateChildInCollection = (\<lambda>q n e k. Resolved JUndefined),
      parent_removeChildFromCollection = (\<lambda>q n c. Resolved JUndefined)\<rparr>"

text \<open>
  The store: array 0 is the caller's \<^verbatim>\<open>parentFields\<close>, array 1 the caller's
  \<^verbatim>\<open>relatedListFields\<close>; record 0 is the contact as it arrives, record 1 the contact
  with its snapshot, record 2 a contact whose snapshot already carries the external key,
  record 3 a contact that refers to an account nobody has, record 4 a contact two of
  whose fields, \<^verbatim>\<open>ref\<close> and \<^verbatim>\<open>backup\<close>, refer to one and the same object, object 10.
\<close>

definition ex_heap :: heap where
  "ex_heap =
     \<lparr>arrays = (\<lambda>r. if r = 0 then [''name''] else if r = 1 then [''title''] else []),
      objects = (\<lambda>r.
         if r = 0 then ex_child
         else if r = 1 then
           [(''id'', JStr ''C1''), (''title'', JStr ''Pipe''),
            (''parent'', JObj [(''name'', JStr ''Acme''), (''id'', JStr ''P1'')])]
         else if r = 2 then
           [(''id'', JStr ''C1''), (''title'', JStr ''Pipe''),
            (''parent'', JObj [(''id'', JStr ''P1''), (''extId'', JStr ''EXT-1'')])]
         else if r = 3 then
           [(''id'', JStr ''C9''), (''fk'', JStr ''EXT-9''), (''title'', JStr ''Valve'')]
         else if r = 4 then
           [(''id'', JStr ''C4''), (''ref'', JRef 10), (''backup'', JRef 10),
            (''parent'', JObj [(''id'', JStr ''P1''), (''extId'', JStr ''EXT-1'')])]
         else []),
      lists = (\<lambda>r. ([], []))\<rparr>"

text \<open>
  The two answers of the language: none of the paths below has a segment of more than
  fifteen characters, and none assigns a \<^verbatim>\<open>length\<close>.
\<close>

definition ex_js :: js where
  "ex_js = \<lparr>roundtrips = (\<lambda>k. False), length_of = (\<lambda>h v. None)\<rparr>"

definition ex_options :: options where
  "ex_options =
     \<lparr>opt_childEntity = JStr ''Contact'',
      opt_parentEntity = JStr ''Account'',
      opt_lookupField = JStr ''fk'',
      opt_parentFieldName = ''parent'',
      opt_parentFields = Some 0,
      opt_relatedListName = Some ''children'',
      opt_relatedListFields = Some 1\<rparr>"

definition ex_scope :: scope where
  "ex_scope =
     \<lparr>lookupField = ''fk'', parentFieldName = ''parent'', parentFields = Shared 0,
      parentEntity = ''Account'', parentKeyField = ''extId''\<rparr>"

definition ex_related :: related where
  "ex_related = \<lparr>relatedListName = ''children'', relatedListFields = 1, childKeyField = ''id''\<rparr>"

text \<open>The joint that \<^verbatim>\<open>joint(ex_options)\<close> returns.\<close>

definition ex_joint :: joint where
  "ex_joint =
     \<lparr>j_childEntity = ''Contact'',
      j_parentEntity = ''Account'',
      j_onParentInserted = RelatedOnParentInserted ex_related,
      j_onParentUpdated = Some BaseOnParentInserted,
      j_onChildInserted = Some (OnChildUpsert ex_related),
      j_onChildUpdated = Some (OnChildUpsert ex_related),
      j_onChildRemoved = Some (OnChildRemoved ex_related),
      j_scope = ex_scope\<rparr>"

text \<open>The store after that construction: both arrays have grown by the local key.\<close>

definition ex_heap' :: heap where
  "ex_heap' =
     ex_heap\<lparr>arrays := (\<lambda>r. if r = 0 then [''name'', ''id'']
                           else if r = 1 then [''title'', ''id''] else [])\<rparr>"

text \<open>Variants of the configuration.\<close>

definition ex_heap_key_only :: heap where
  \<comment> \<open>the caller lists the parent's local key itself as the only parent field\<close>
  "ex_heap_key_only = ex_heap\<lparr>arrays := (arrays ex_heap)(0 := [''id''])\<rparr>"

definition ex_heap_no_fields :: heap where
  \<comment> \<open>the caller passes an empty array of parent fields\<close>
  "ex_heap_no_fields = ex_heap\<lparr>arrays := (arrays ex_heap)(0 := [])\<rparr>"

definition ex_options_base :: options where
  \<comment> \<open>no related list\<close>
  "ex_options_base = ex_options\<lparr>opt_relatedListName := None\<rparr>"

definition ex_joint_base :: joint where
  \<comment> \<open>the joint that \<^verbatim>\<open>joint(ex_options_base)\<close> returns\<close>
  "ex_joint_base =
     ex_joint\<lparr>j_onParentInserted := BaseOnParentInserted, j_onChildInserted := None,
              j_onChildUpdated := None, j_onChildRemoved := None\<rparr>"

definition ex_collections_failing :: collections where
  \<comment> \<open>a child collection whose \<^verbatim>\<open>update\<close> fails\<close>
  "ex_collections_failing = ex_collections\<lparr>child_update := \<lambda>a b. Rejected (External 1)\<rparr>"

definition ex_options_alias :: options where
  \<comment> \<open>one array passed both as \<^verbatim>\<open>parentFields\<close> and as \<^verbatim>\<open>relatedListFields\<close>\<close>
  "ex_options_alias = ex_options\<lparr>opt_relatedListFields := Some 0\<rparr>"

definition ex_collections_cid :: collections where
  \<comment> \<open>the child collection's local key is \<^verbatim>\<open>cid\<close>, and accounts have a field of that name\<close>
  "ex_collections_cid =
     ex_collections\<lparr>child_getLocalKeyField := ''cid'',
                    parent_get := \<lambda>q. Resolved (JObj (ex_parent @ [(''cid'', JStr ''X1'')]))\<rparr>"

definition ex_scope_title :: scope where
  \<comment> \<open>the foreign key under a field that holds a string\<close>
  "ex_scope_title = ex_scope\<lparr>lookupField := ''title.x''\<rparr>"


definition ex_scope_refs :: scope where
  \<comment> \<open>the foreign key as the first element of an array\<close>
  "ex_scope_refs = ex_scope\<lparr>lookupField := ''refs.0''\<rparr>"

section \<open>Facts about the model\<close>

lemma map_of_update: "map_of (AList.update k v al) k' = (if k' = k then Some v else map_of al k')"
  by (simp add: update_conv')

lemma split_on_ne: "split_on c s \<noteq> []"
  by (induction s) (auto split: list.splits)

lemma split_on_plain: "c \<notin> set s \<Longrightarrow> split_on c s = [s]"
  by (induction s) auto

lemma length_not_number: "\<not> key_is_number e ''length''"
  by (simp add: key_is_number_def canonical_int_def canonical_nat_def is_digit_def)

lemma length_not_index: "index_key ''length'' = None"
  by (simp add: index_key_def canonical_nat_def is_digit_def)

text \<open>A container that \<^verbatim>\<open>set\<close> has just created takes the rest of the path.\<close>

lemma set_path_created:
  "\<exists>u. set_path e h (if key_is_number e k then JArr [] [] else JObj []) (k # ks) v = Inr (h, u)"
proof (induction ks arbitrary: k h)
  case Nil
  show ?case
  proof (cases "key_is_number e k")
    case True
    then have "k \<noteq> ''length''" using length_not_number by auto
    with True show ?thesis by (simp add: put_array_def split: option.splits)
  next
    case False
    then show ?thesis by simp
  qed
next
  case (Cons k' ks)
  let ?c = "if key_is_number e k then JArr [] [] else JObj []"
  let ?c' = "if key_is_number e k' then JArr [] [] else JObj []"
  have ne: "key_is_number e k \<Longrightarrow> k \<noteq> ''length''" using length_not_number by auto
  have cur: "getShallowProperty h ?c k = JUndefined"
    using ne by (auto simp: getShallowProperty_def split: option.splits)
  obtain u where u: "set_path e h ?c' (k' # ks) v = Inr (h, u)"
    using Cons.IH by blast
  have as: "\<exists>o1. assign e h ?c k ?c' = Inr (h, o1) \<and> fst (put_back h o1 k u) = h"
    using ne by (auto simp: put_array_def split: option.splits)
  then obtain o1 where o1: "assign e h ?c k ?c' = Inr (h, o1)" "fst (put_back h o1 k u) = h"
    by blast
  show ?case
    using cur o1 u by (simp add: Let_def prod_eq_iff del: assign.simps put_back.simps)
qed



lemma assign_step: "assign e h obj k v = Inr (h', obj') \<Longrightarrow> step_ok h obj h' obj'"
  by (cases obj) (auto simp: step_ok_def only_cell_differs_def split: sum.splits)

lemma put_back_step: "put_back h obj k c = (h', obj') \<Longrightarrow> step_ok h obj h' obj'"
  by (cases obj) (auto simp: step_ok_def only_cell_differs_def split: option.splits)

lemma step_ok_trans:
  "step_ok h obj h1 obj1 \<Longrightarrow> step_ok h1 obj1 h2 obj2 \<Longrightarrow> step_ok h obj h2 obj2"
  by (cases obj) (auto simp: step_ok_def only_cell_differs_def)

lemma step_ok_either: "step_ok h obj h' obj' \<Longrightarrow> h' = h \<or> obj' = obj"
  by (cases obj) (auto simp: step_ok_def)

lemma step_ok_ref: "step_ok h (JRef r) h' obj' \<Longrightarrow> obj' = JRef r"
  and step_ok_arr_ref: "step_ok h (JArrRef r) h' obj' \<Longrightarrow> obj' = JArrRef r"
  by (auto simp: step_ok_def)

lemma step_ok_frame: "step_ok h obj h' obj' \<Longrightarrow> \<exists>c. only_cell_differs h h' c"
proof (cases obj)
  case (JRef r)
  assume "step_ok h obj h' obj'"
  with JRef have "only_cell_differs h h' (ObjectCell r)" by (simp add: step_ok_def)
  then show ?thesis ..
next
  case (JArrRef r)
  assume "step_ok h obj h' obj'"
  with JArrRef have "only_cell_differs h h' (ListCell r)" by (simp add: step_ok_def)
  then show ?thesis ..
qed (auto simp: step_ok_def only_cell_differs_def)

lemma set_path_step:
  "set_path e h obj ks v = Inr (h', obj')
   \<Longrightarrow> (h' = h \<or> obj' = obj) \<and> (\<exists>c. only_cell_differs h h' c)
       \<and> (\<forall>r. obj = JRef r \<longrightarrow> obj' = obj) \<and> (\<forall>r. obj = JArrRef r \<longrightarrow> obj' = obj)"
proof (induction e h obj ks v arbitrary: h' obj' rule: set_path.induct)
  case (1 e h obj v)
  then show ?case by (auto simp: only_cell_differs_def)
next
  case (2 e h obj k v)
  then have "step_ok h obj h' obj'" by (auto dest: assign_step)
  then show ?case
    using step_ok_frame[of h obj h' obj'] step_ok_either[of h obj h' obj']
    by (auto dest: step_ok_ref step_ok_arr_ref)
next
  case (3 e h obj k k' ks v)
  let ?cur = "getShallowProperty h obj k"
  show ?case
  proof (cases "?cur = JUndefined")
    case True
    let ?c = "if key_is_number e k' then JArr [] [] else JObj []"
    from 3(3) True obtain h1 obj1 h2 child where
      a: "assign e h obj k ?c = Inr (h1, obj1)"
      and s: "set_path e h1 ?c (k' # ks) v = Inr (h2, child)"
      and p: "put_back h2 obj1 k child = (h', obj')"
      by (auto simp: Let_def split: sum.splits prod.splits)
    from set_path_created[of e h1 k' ks v] s have h2: "h2 = h1" by auto
    from assign_step[OF a] put_back_step[OF p[unfolded h2]]
    have "step_ok h obj h' obj'" by (rule step_ok_trans)
    then show ?thesis
      using step_ok_frame[of h obj h' obj'] step_ok_either[of h obj h' obj']
      by (auto dest: step_ok_ref step_ok_arr_ref)
  next
    case False
    from 3(3) False obtain h1 child where
      s: "set_path e h ?cur (k' # ks) v = Inr (h1, child)"
      by (auto simp: Let_def split: sum.splits prod.splits)
    note IH = 3(2)[OF refl False s]
    show ?thesis
    proof (cases "child = ?cur")
      case True
      with 3(3) False s have "h' = h1" "obj' = obj" by (auto simp: Let_def)
      with IH show ?thesis by auto
    next
      case ne: False
      with IH have h1: "h1 = h" by auto
      from 3(3) False s ne have p: "put_back h1 obj k child = (h', obj')"
        by (auto simp: Let_def)
      from put_back_step[OF p[unfolded h1]] have "step_ok h obj h' obj'" .
      then show ?thesis
        using step_ok_frame[of h obj h' obj'] step_ok_either[of h obj h' obj']
        by (auto dest: step_ok_ref step_ok_arr_ref)
    qed
  qed
qed

lemma objectPath_set_step:
  assumes "objectPath_set e h (JRef r) path v = Inr (h', u)"
  shows "u = JRef r \<and> (\<exists>c. only_cell_differs h h' c)"
proof (cases "path = []")
  case True
  with assms show ?thesis by (auto simp: objectPath_set_def only_cell_differs_def)
next
  case False
  with assms have "set_path e h (JRef r) (split_on CHR ''.'' path) v = Inr (h', u)"
    by (simp add: objectPath_set_def)
  from set_path_step[OF this] show ?thesis by auto
qed

lemma objectPath_set_plain:
  assumes "path \<noteq> []" and "CHR ''.'' \<notin> set path"
  shows "objectPath_set e h (JRef r) path v
         = Inr (h\<lparr>objects := (objects h)(r := AList.update path v (objects h r))\<rparr>, JRef r)"
  using assms by (simp add: objectPath_set_def split_on_plain)

lemma objectPath_get_plain:
  assumes "path \<noteq> []" and "CHR ''.'' \<notin> set path"
  shows "objectPath_get h (JRef r) path = getprop (JObj (objects h r)) path"
  using assms by (simp add: objectPath_get_def split_on_plain getShallowProperty_def Let_def)

lemmas ex_defs = ex_collections_def ex_heap_def ex_heap'_def ex_scope_def ex_related_def
  ex_joint_def ex_parent_def ex_child_def

lemma fold_id: "fold (\<lambda>k acc. acc) xs a = a"
  by (induction xs) auto

lemma map_of_fold_extract:
  "map_of (fold (\<lambda>k acc. case map_of kvs k of Some v \<Rightarrow> AList.update k v acc | None \<Rightarrow> acc) names acc) k
   = (if k \<in> set names \<and> map_of kvs k \<noteq> None then map_of kvs k else map_of acc k)"
  by (induction names arbitrary: acc) (auto simp: map_of_update split: option.splits)

lemma getprop_extractNamedFields:
  "getprop (extractNamedFields (JObj kvs) names) k
   = (if k \<in> set names then getprop (JObj kvs) k else JUndefined)"
  by (auto simp: extractNamedFields_def map_of_fold_extract split: option.splits)

lemma read_arr_cong: "arrays h = arrays h' \<Longrightarrow> read_arr h a = read_arr h' a"
  by (cases a) auto

lemma joint_parentFields:
  assumes "k_out (joint cs h opts) = Inr j"
    and "\<not> related_list_configured opts \<or> opt_relatedListFields opts \<noteq> opt_parentFields opts"
  shows "read_arr (k_heap (joint cs h opts)) (parentFields (j_scope j))
         = configured_parentFields h opts @ [parent_getLocalKeyField cs]"
  using assms
  by (auto simp: joint_def Let_def configured_parentFields_def related_list_configured_def
           split: if_splits sum.splits option.splits)

lemma joint_onParentUpdated:
  assumes "k_out (joint cs hc opts) = Inr j"
  shows "(j_onParentUpdated j \<noteq> None \<longleftrightarrow> configured_parentFields hc opts \<noteq> [])
       \<and> (j_onParentUpdated j \<noteq> None \<longrightarrow> j_onParentUpdated j = Some BaseOnParentInserted)"
  using assms
  by (auto simp: joint_def Let_def configured_parentFields_def
           split: if_splits sum.splits option.splits prod.splits)

lemma joint_ex: "joint ex_collections ex_heap ex_options
   = \<lparr>k_heap = ex_heap', k_calls = [ParentGetKeyField, ParentGetLocalKeyField, ChildGetLocalKeyField],
      k_out = Inr ex_joint\<rparr>"
  by (simp add: joint_def ex_collections_def ex_heap_def ex_options_def ex_joint_def ex_heap'_def
      ex_scope_def ex_related_def checkOptions_def Let_def fun_eq_iff)

lemma joint_calls_are_getters:
  "list_all (\<lambda>c. \<not> mutates_collection c) (k_calls (joint cs h opts))"
  by (simp add: joint_def Let_def split: sum.splits option.splits prod.splits)

lemma getprop_set_elem:
  "index_key k = Some i \<Longrightarrow> getprop (JArr (set_elem es i v) ps) k = v"
  by (auto simp: set_elem_def nth_append)

lemma fresh_set:
  assumes "c = JObj [] \<or> (c = JArr [] [] \<and> key_is_number e k)"
  shows "\<exists>c'. set_path e h c (k # ks) v = Inr (h, c')
            \<and> (\<forall>h'. get_path h' c' (k # ks) = v)
            \<and> c' \<noteq> JUndefined"
  using assms
proof (induction ks arbitrary: k c)
  case Nil
  show ?case
  proof (cases "c = JObj []")
    case True
    then show ?thesis by (simp add: getShallowProperty_def Let_def)
  next
    case False
    with Nil have c: "c = JArr [] []" and kn: "key_is_number e k" by auto
    from kn have kl: "k \<noteq> ''length''" using length_not_number by auto
    show ?thesis
    proof (cases "index_key k")
      case None
      then show ?thesis using c kl
        by (simp add: getShallowProperty_def put_array_def Let_def)
    next
      case (Some i)
      then show ?thesis using c kl
        by (simp add: getShallowProperty_def put_array_def set_elem_def Let_def nth_append)
    qed
  qed
next
  case (Cons k' ks)
  let ?created = "if key_is_number e k' then JArr [] [] else JObj []"
  have cr: "?created = JObj [] \<or> (?created = JArr [] [] \<and> key_is_number e k')"
    by simp
  from Cons.IH[OF cr] obtain child where
    ch: "set_path e h ?created (k' # ks) v = Inr (h, child)"
    and g: "\<And>h'. get_path h' child (k' # ks) = v" and ne: "child \<noteq> JUndefined"
    by blast
  from Cons.prems show ?case
  proof
    assume c: "c = JObj []"
    have cur: "getShallowProperty h c k = JUndefined"
      by (simp add: c getShallowProperty_def)
    have s: "set_path e h c (k # k' # ks) v = Inr (h, JObj [(k, child)])"
      using cur ch by (simp add: c Let_def)
    have "\<And>h'. get_path h' (JObj [(k, child)]) (k # k' # ks) = v"
      using g ne by (simp add: getShallowProperty_def Let_def)
    with s show ?thesis by auto
  next
    assume c: "c = JArr [] [] \<and> key_is_number e k"
    then have kl: "k \<noteq> ''length''" using length_not_number by auto
    have cur: "getShallowProperty h c k = JUndefined"
      using c kl by (simp add: getShallowProperty_def split: option.splits)
    show ?thesis
    proof (cases "index_key k")
      case None
      have s: "set_path e h c (k # k' # ks) v = Inr (h, JArr [] [(k, child)])"
        using cur ch c kl None by (simp add: Let_def put_array_def)
      have "\<And>h'. get_path h' (JArr [] [(k, child)]) (k # k' # ks) = v"
        using g ne None kl by (simp add: getShallowProperty_def Let_def)
      with s show ?thesis by auto
    next
      case (Some i)
      have s: "set_path e h c (k # k' # ks) v
               = Inr (h, JArr (set_elem (set_elem [] i ?created) i child) [])"
        using cur ch c kl Some by (simp add: Let_def put_array_def)
      have "\<And>h'. get_path h' (JArr (set_elem (set_elem [] i ?created) i child) [])
                     (k # k' # ks) = v"
        using g ne getprop_set_elem[OF Some]
        by (simp add: getShallowProperty_def Let_def del: getprop.simps)
      with s show ?thesis by auto
    qed
  qed
qed

lemma getprop_defined:
  "getprop (JObj kvs) k \<noteq> JUndefined \<Longrightarrow> map_of kvs k = Some (getprop (JObj kvs) k)"
  by (auto split: option.splits)

lemma inplace_set:
  assumes "plain_path h (JObj kvs) (k # ks)"
  shows "\<exists>kvs'. set_path e h (JObj kvs) (k # ks) v = Inr (h, JObj kvs')
            \<and> (\<forall>h'. get_path h' (JObj kvs') (k # ks) = v)"
  using assms
proof (induction ks arbitrary: k kvs)
  case Nil
  then show ?case by (auto simp: getShallowProperty_def map_of_update)
next
  case (Cons k' ks)
  let ?cur = "getShallowProperty h (JObj kvs) k"
  show ?case
  proof (cases "?cur = JUndefined")
    case True
    let ?created = "if key_is_number e k' then JArr [] [] else JObj []"
    have cr: "?created = JObj [] \<or> (?created = JArr [] [] \<and> key_is_number e k')"
      by simp
    from fresh_set[OF cr] obtain child where
      ch: "set_path e h ?created (k' # ks) v = Inr (h, child)"
      and g: "\<And>h'. get_path h' child (k' # ks) = v" and ne: "child \<noteq> JUndefined"
      by blast
    have s: "set_path e h (JObj kvs) (k # k' # ks) v
             = Inr (h, JObj (AList.update k child (AList.update k ?created kvs)))"
      using True ch by (simp add: Let_def)
    have "\<And>h'. get_path h' (JObj (AList.update k child (AList.update k ?created kvs)))
                   (k # k' # ks) = v"
      using g ne by (simp add: getShallowProperty_def Let_def map_of_update)
    with s show ?thesis by blast
  next
    case False
    with Cons.prems obtain kvs1 where cur: "?cur = JObj kvs1"
      and pp: "plain_path h (JObj kvs1) (k' # ks)"
      by (auto split: jsval.splits)
    from Cons.IH[OF pp] obtain kvs2 where
      ch: "set_path e h (JObj kvs1) (k' # ks) v = Inr (h, JObj kvs2)"
      and g: "\<And>h'. get_path h' (JObj kvs2) (k' # ks) = v"
      by blast
    show ?thesis
    proof (cases "JObj kvs2 = JObj kvs1")
      case True
      have s: "set_path e h (JObj kvs) (k # k' # ks) v = Inr (h, JObj kvs)"
        using cur ch True by (simp add: Let_def)
      have "\<And>h'. get_path h' (JObj kvs) (k # k' # ks) = v"
        using g True cur by (simp add: getShallowProperty_def Let_def)
      with s show ?thesis by blast
    next
      case False
      have s: "set_path e h (JObj kvs) (k # k' # ks) v
               = Inr (h, JObj (AList.update k (JObj kvs2) kvs))"
        using cur ch False by (simp add: Let_def)
      have "\<And>h'. get_path h' (JObj (AList.update k (JObj kvs2) kvs)) (k # k' # ks) = v"
        using g by (simp add: getShallowProperty_def Let_def map_of_update)
      with s show ?thesis by blast
    qed
  qed
qed

text \<open>On a plain path \<^verbatim>\<open>set\<close> succeeds, only the field of the first segment changes, and \<^verbatim>\<open>get\<close> reads the value back.\<close>

lemma set_path_plain:
  assumes "plain_path h (JRef r) (k # ks)"
  shows "\<exists>c. set_path e h (JRef r) (k # ks) v
               = Inr (h\<lparr>objects := (objects h)(r := AList.update k c (objects h r))\<rparr>, JRef r)
            \<and> get_path (h\<lparr>objects := (objects h)(r := AList.update k c (objects h r))\<rparr>)
                 (JRef r) (k # ks) = v"
proof (cases ks)
  case Nil
  show ?thesis unfolding Nil
    by (rule exI[of _ v]) (simp add: getShallowProperty_def map_of_update Let_def)
next
  case (Cons k' ks')
  let ?cur = "getShallowProperty h (JRef r) k"
  show ?thesis
  proof (cases "?cur = JUndefined")
    case True
    let ?created = "if key_is_number e k' then JArr [] [] else JObj []"
    let ?h1 = "h\<lparr>objects := (objects h)(r := AList.update k ?created (objects h r))\<rparr>"
    have cr: "?created = JObj [] \<or> (?created = JArr [] [] \<and> key_is_number e k')"
      by simp
    from fresh_set[OF cr, of ?h1 ks' v] obtain child where
      ch: "set_path e ?h1 ?created (k' # ks') v = Inr (?h1, child)"
      and g: "\<And>h'. get_path h' child (k' # ks') = v" and ne: "child \<noteq> JUndefined"
      by blast
    let ?h2 = "h\<lparr>objects := (objects h)(r := AList.update k child (objects h r))\<rparr>"
    have s: "set_path e h (JRef r) (k # k' # ks') v = Inr (?h2, JRef r)"
      using True ch by (simp add: Let_def)
    have g2: "get_path ?h2 (JRef r) (k # k' # ks') = v"
      using g ne by (simp add: getShallowProperty_def Let_def map_of_update)
    show ?thesis unfolding Cons
      by (rule exI[of _ child]) (rule conjI[OF s g2])
  next
    case False
    with assms Cons obtain kvs1 where cur: "?cur = JObj kvs1"
      and pp: "plain_path h (JObj kvs1) (k' # ks')"
      by (auto split: jsval.splits)
    from inplace_set[OF pp] obtain kvs2 where
      ch: "set_path e h (JObj kvs1) (k' # ks') v = Inr (h, JObj kvs2)"
      and g: "\<And>h'. get_path h' (JObj kvs2) (k' # ks') = v"
      by blast
    let ?h2 = "h\<lparr>objects := (objects h)(r := AList.update k (JObj kvs2) (objects h r))\<rparr>"
    have g2: "get_path ?h2 (JRef r) (k # k' # ks') = v"
      using g by (simp add: getShallowProperty_def Let_def map_of_update)
    have s: "set_path e h (JRef r) (k # k' # ks') v = Inr (?h2, JRef r)"
    proof (cases "kvs2 = kvs1")
      case True
      from cur have "map_of (objects h r) k = Some (JObj kvs1)"
        by (simp add: getShallowProperty_def split: option.splits)
      then have "AList.update k (JObj kvs1) (objects h r) = objects h r"
        by (rule update_triv)
      then have same: "?h2 = h" using True by simp
      have "set_path e h (JRef r) (k # k' # ks') v = Inr (h, JRef r)"
        using cur ch True by (simp add: Let_def)
      then show ?thesis unfolding same .
    next
      case False
      then show ?thesis using cur ch by (simp add: Let_def)
    qed
    show ?thesis unfolding Cons
      by (rule exI[of _ "JObj kvs2"]) (rule conjI[OF s g2])
  qed
qed

lemma objectPath_set_plain_path:
  assumes "path \<noteq> []" and "plain_path h (JRef r) (split_on CHR ''.'' path)"
  shows "\<exists>c. objectPath_set e h (JRef r) path v
               = Inr (h\<lparr>objects := (objects h)
                         (r := AList.update (hd (split_on CHR ''.'' path)) c (objects h r))\<rparr>, JRef r)
            \<and> objectPath_get (h\<lparr>objects := (objects h)
                         (r := AList.update (hd (split_on CHR ''.'' path)) c (objects h r))\<rparr>)
                 (JRef r) path = v"
proof -
  obtain k ks where sp: "split_on CHR ''.'' path = k # ks"
    using split_on_ne[of "CHR ''.''" path] by (cases "split_on CHR ''.'' path") auto
  from set_path_plain[of h r k ks e v] assms(2) sp assms(1) show ?thesis
    by (simp add: objectPath_set_def objectPath_get_def)
qed

lemma truthy_getprop_deref: "truthy (getprop (deref h snap) k) \<Longrightarrow> truthy snap"
  by (cases snap) (auto split: option.splits if_splits)

lemma set_and_return_calls: "t_calls (set_and_return e s h p v cl) = cl"
  by (simp add: set_and_return_def split: sum.splits prod.splits)

lemma set_and_return_rejects:
  "rejects (set_and_return e s h p v cl) \<longleftrightarrow> isl (objectPath_set e h (JRef p) (lookupField s) v)"
  by (auto simp: set_and_return_def rejects_def split: sum.splits prod.splits)

lemma set_and_return_rejected:
  "rejects (set_and_return e s h p v cl) \<Longrightarrow> t_heap (set_and_return e s h p v cl) = h"
  by (auto simp: set_and_return_def rejects_def split: sum.splits prod.splits)

lemma set_and_return_resolved:
  assumes "\<not> rejects (set_and_return e s h p v cl)"
  shows "t_out (set_and_return e s h p v cl) = Returns (Resolved p)
       \<and> objectPath_set e h (JRef p) (lookupField s) v
           = Inr (t_heap (set_and_return e s h p v cl), JRef p)"
proof (cases "objectPath_set e h (JRef p) (lookupField s) v")
  case (Inl x)
  with assms show ?thesis by (simp add: set_and_return_def rejects_def)
next
  case (Inr hu)
  obtain h' u where hu: "hu = (h', u)" by (cases hu)
  from objectPath_set_step[of e h p "lookupField s" v h' u] Inr hu have "u = JRef p" by simp
  with Inr hu show ?thesis by (simp add: set_and_return_def)
qed


lemma set_and_return_plain:
  assumes "lookupField s \<noteq> []"
    and "plain_path h (JRef p) (split_on CHR ''.'' (lookupField s))"
  shows "\<not> rejects (set_and_return e s h p v cl)
       \<and> objectPath_get (t_heap (set_and_return e s h p v cl)) (JRef p) (lookupField s) = v
       \<and> only_cell_differs h (t_heap (set_and_return e s h p v cl)) (ObjectCell p)
       \<and> (\<forall>k. k \<noteq> hd (split_on CHR ''.'' (lookupField s))
              \<longrightarrow> map_of (objects (t_heap (set_and_return e s h p v cl)) p) k
                    = map_of (objects h p) k)"
proof -
  from objectPath_set_plain_path[OF assms, of e v] obtain c where
    s: "objectPath_set e h (JRef p) (lookupField s) v
          = Inr (h\<lparr>objects := (objects h)
                    (p := AList.update (hd (split_on CHR ''.'' (lookupField s))) c (objects h p))\<rparr>,
                 JRef p)"
    and g: "objectPath_get (h\<lparr>objects := (objects h)
                    (p := AList.update (hd (split_on CHR ''.'' (lookupField s))) c (objects h p))\<rparr>)
              (JRef p) (lookupField s) = v"
    by blast
  have t: "set_and_return e s h p v cl
      = \<lparr>t_heap = h\<lparr>objects := (objects h)
                    (p := AList.update (hd (split_on CHR ''.'' (lookupField s))) c (objects h p))\<rparr>,
         t_calls = cl, t_out = Returns (Resolved p)\<rparr>"
    by (simp add: set_and_return_def s)
  show ?thesis unfolding t using g
    by (simp add: rejects_def only_cell_differs_def map_of_update)
qed

lemma plain_path_single: "CHR ''.'' \<notin> set path \<Longrightarrow> plain_path h obj (split_on CHR ''.'' path)"
  by (simp add: split_on_plain)

lemma prepare_fast:
  assumes "wrapped_prepare prepare h input action = (hw, Returns (Resolved prepared))"
    and "truthy (getprop (deref hw (getprop (JObj (objects hw prepared)) (parentFieldName s)))
                   (parentKeyField s))"
  shows "enhancePrepare e cs s prepare h input action
         = set_and_return e s hw prepared
             (getprop (deref hw (getprop (JObj (objects hw prepared)) (parentFieldName s)))
                (parentKeyField s)) []"
  using assms truthy_getprop_deref[OF assms(2)]
  by (simp add: enhancePrepare_def prepare_then_def Let_def del: getprop.simps)

lemma prepare_lookup:
  assumes "wrapped_prepare prepare h input action = (hw, Returns (Resolved prepared))"
    and "truthy (getprop (JObj (objects hw prepared)) (parentFieldName s))"
    and "\<not> truthy (getprop (deref hw (getprop (JObj (objects hw prepared)) (parentFieldName s)))
                     (parentKeyField s))"
    and "key = getprop (deref hw (getprop (JObj (objects hw prepared)) (parentFieldName s)))
                 (parent_getLocalKeyField cs)"
    and "cl = [ParentGetLocalKeyField, ParentGet key]"
  shows "enhancePrepare e cs s prepare h input action =
     (case parent_get cs key of
          Rejected x \<Rightarrow> \<lparr>t_heap = hw, t_calls = cl, t_out = Returns (Rejected x)\<rparr>
        | Resolved parent \<Rightarrow>
           (if \<not> truthy parent then
              \<lparr>t_heap = hw, t_calls = cl, t_out = Returns (Rejected (UnableToLocateParent key))\<rparr>
            else if \<not> truthy (getprop (deref hw parent) (parentKeyField s)) then
              \<lparr>t_heap = hw, t_calls = cl, t_out = Returns (Rejected (NoExternalIdYet key))\<rparr>
            else set_and_return e s hw prepared (getprop (deref hw parent) (parentKeyField s)) cl))"
  using assms
  by (simp add: enhancePrepare_def prepare_then_def Let_def del: getprop.simps split: promise.splits)


lemma set_and_return_out:
  "t_out (set_and_return e s h p v cl) = Returns (Resolved p) \<or> rejects (set_and_return e s h p v cl)"
  by (auto simp: set_and_return_def rejects_def split: sum.splits prod.splits)



lemma set_and_return_case:
  "(case objectPath_set e h (JRef p) (lookupField s) v of
      Inl x \<Rightarrow> t_out (set_and_return e s h p v cl) = Returns (Rejected x)
               \<and> t_heap (set_and_return e s h p v cl) = h
    | Inr (h', u) \<Rightarrow> u = JRef p
               \<and> t_out (set_and_return e s h p v cl) = Returns (Resolved p)
               \<and> t_heap (set_and_return e s h p v cl) = h')"
proof (cases "objectPath_set e h (JRef p) (lookupField s) v")
  case (Inl x)
  then show ?thesis by (simp add: set_and_return_def)
next
  case (Inr hu)
  obtain h' u where hu: "hu = (h', u)" by (cases hu)
  from objectPath_set_step[of e h p "lookupField s" v h' u] Inr hu have "u = JRef p" by simp
  with Inr hu show ?thesis by (simp add: set_and_return_def)
qed

lemmas ex_eval = enhancePrepare_def prepare_then_def set_and_return_def wrapped_prepare_def
  objectPath_set_def objectPath_get_def getShallowProperty_def Let_def
  index_key_def canonical_nat_def canonical_int_def key_is_number_def is_digit_def
  nat_of_digits_def digit_val_def put_array_def set_elem_def

text \<open>
  When \<^verbatim>\<open>parentFields\<close> and \<^verbatim>\<open>relatedListFields\<close> are two different arrays, left as
  construction left them, the snapshot the enhanced cleanse writes is the projection of
  the parent onto the configured fields followed by the local key.
\<close>

lemma enhanceCleanse_snapshot_distinct:
  assumes "k_out (joint cs hc opts) = Inr j"
    and "\<not> related_list_configured opts \<or> opt_relatedListFields opts \<noteq> opt_parentFields opts"
    and "wrapped_cleanse cleanse h input = (hw, Returns (Resolved cleaned))"
    and "arrays hw = arrays (k_heap (joint cs hc opts))"
    and "truthy (objectPath_get hw (JRef cleaned) (lookupField (j_scope j)))"
    and "parent_get cs (JObj [(parentKeyField (j_scope j),
            objectPath_get hw (JRef cleaned) (lookupField (j_scope j)))]) = Resolved p"
    and "truthy p"
  shows "t_out (enhanceCleanse cs (j_scope j) cleanse h input) = Returns (Resolved cleaned)
       \<and> getprop (JObj (objects (t_heap (enhanceCleanse cs (j_scope j) cleanse h input)) cleaned))
            (parentFieldName (j_scope j))
          = extractNamedFields (deref hw p)
              (configured_parentFields hc opts @ [parent_getLocalKeyField cs])"
proof -
  have pf: "read_arr hw (parentFields (j_scope j))
            = configured_parentFields hc opts @ [parent_getLocalKeyField cs]"
    using joint_parentFields[OF assms(1,2)] read_arr_cong[OF assms(4)] by simp
  have res: "enhanceCleanse cs (j_scope j) cleanse h input =
          \<lparr>t_heap = hw\<lparr>objects := (objects hw)
                     (cleaned := AList.update (parentFieldName (j_scope j))
                        (extractNamedFields (deref hw p)
                           (configured_parentFields hc opts @ [parent_getLocalKeyField cs]))
                        (objects hw cleaned))\<rparr>,
           t_calls = [ParentGet (JObj [(parentKeyField (j_scope j),
                         objectPath_get hw (JRef cleaned) (lookupField (j_scope j)))])],
           t_out = Returns (Resolved cleaned)\<rparr>"
    using assms(3,5,6,7) pf by (simp add: enhanceCleanse_def cleanse_then_def Let_def)
  show ?thesis
    by (simp add: res map_of_update)
qed

section \<open>The claims\<close>

text \<open>
  C1, as stated, fails: with the related list configured and one child found,
  \<^verbatim>\<open>onParentInserted\<close> calls \<^verbatim>\<open>parentCollection.update\<close> with the related list as its
  first argument and the external key as its second. Read through the interface
  \<^verbatim>\<open>update(matchCriteria, fieldsToSet)\<close>, the call the claim describes (external key
  first, related list second) is not among the calls.
\<close>

theorem onParentInserted_resync_counterexample:
  "k_out (joint ex_collections ex_heap ex_options) = Inr ex_joint
   \<and> calls (onParentInserted ex_collections ex_heap' ex_joint ex_parent)
       = [ChildUpdate (JObj [(''parent'', JObj [(''name'', JStr ''Acme''), (''id'', JStr ''P1'')])])
                      (JObj [(''fk'', JStr ''EXT-1'')]),
          ChildFind (JObj [(''fk'', JStr ''EXT-1'')]),
          ParentUpdate (JObj [(''children'',
                               JArr [JObj [(''title'', JStr ''Pipe''), (''id'', JStr ''C1'')]] [])])
                       (JObj [(''extId'', JStr ''EXT-1'')])]
   \<and> ParentUpdate (JObj [(''extId'', JStr ''EXT-1'')])
                    (JObj [(''children'',
                            JArr [JObj [(''title'', JStr ''Pipe''), (''id'', JStr ''C1'')]] [])])
       \<notin> set (calls (onParentInserted ex_collections ex_heap' ex_joint ex_parent))"
proof -
  have c: "calls (onParentInserted ex_collections ex_heap' ex_joint ex_parent)
       = [ChildUpdate (JObj [(''parent'', JObj [(''name'', JStr ''Acme''), (''id'', JStr ''P1'')])])
                      (JObj [(''fk'', JStr ''EXT-1'')]),
          ChildFind (JObj [(''fk'', JStr ''EXT-1'')]),
          ParentUpdate (JObj [(''children'',
                               JArr [JObj [(''title'', JStr ''Pipe''), (''id'', JStr ''C1'')]] [])])
                       (JObj [(''extId'', JStr ''EXT-1'')])]"
    by (simp add: onParentInserted_def onParentInserted_related_def onParentInserted_base_def
        extractNamedFields_def Let_def ex_defs)
  show ?thesis unfolding c by (simp add: joint_ex)
qed

text \<open>
  C1, amended. For a joint built with the related list configured, and every parent
  record: \<^verbatim>\<open>onParentInserted\<close> first delegates to \<^verbatim>\<open>onParentUpdated\<close> when that slot is
  set (one \<^verbatim>\<open>childCollection.update\<close>), then calls \<^verbatim>\<open>childCollection.find\<close> with
  \<^verbatim>\<open>{[lookupField]: parent[parentKeyField]}\<close>, and, only when \<^verbatim>\<open>find\<close> resolves with a
  non-empty array, calls \<^verbatim>\<open>parentCollection.update\<close> with first argument
  \<^verbatim>\<open>{[relatedListName]: summaries}\<close> and second argument
  \<^verbatim>\<open>{[parentKeyField]: parent[parentKeyField]}\<close>, the summaries being
  \<^verbatim>\<open>extractNamedFields\<close> of each record found over the array \<^verbatim>\<open>relatedListFields\<close>. This
  is the argument order of the \<^verbatim>\<open>childCollection.update\<close> call of line 59 as well: the
  fields to write first, the key that selects the records second.
\<close>

theorem onParentInserted_resync:
  assumes "k_out (joint cs hc opts) = Inr j"
    and "opt_relatedListName opts = Some n" and "n \<noteq> []"
    and "opt_relatedListFields opts = Some rf"
  shows "calls (onParentInserted cs h j parent)
         = (if j_onParentUpdated j = None then []
            else [ChildUpdate
                    (JObj [(opt_parentFieldName opts,
                            extractNamedFields (JObj parent) (read_arr h (parentFields (j_scope j))))])
                    (JObj [(the_string (opt_lookupField opts),
                            getprop (JObj parent) (parent_getKeyField cs))])])
           @ [ChildFind (JObj [(the_string (opt_lookupField opts),
                                getprop (JObj parent) (parent_getKeyField cs))])]
           @ (case child_find cs (JObj [(the_string (opt_lookupField opts),
                                         getprop (JObj parent) (parent_getKeyField cs))]) of
                Rejected e \<Rightarrow> []
              | Resolved recs \<Rightarrow>
                  (if recs = [] then []
                   else [ParentUpdate
                           (JObj [(n, JArr (map (\<lambda>r. extractNamedFields (deref h r) (arrays h rf))
                                              recs) [])])
                           (JObj [(parent_getKeyField cs,
                                   getprop (JObj parent) (parent_getKeyField cs))])]))"
proof -
  let ?rl = "\<lparr>relatedListName = n, relatedListFields = rf,
              childKeyField = child_getLocalKeyField cs\<rparr>"
  from assms have slot: "j_onParentInserted j = RelatedOnParentInserted ?rl"
    by (auto simp: joint_def Let_def split: if_splits sum.splits prod.splits)
  from assms have upd: "j_onParentUpdated j = None \<or> j_onParentUpdated j = Some BaseOnParentInserted"
    by (auto simp: joint_def Let_def split: if_splits sum.splits prod.splits)
  from assms have sc: "lookupField (j_scope j) = the_string (opt_lookupField opts)"
      "parentFieldName (j_scope j) = opt_parentFieldName opts"
      "parentKeyField (j_scope j) = parent_getKeyField cs"
    by (auto simp: joint_def Let_def split: if_splits sum.splits prod.splits)
  from upd show ?thesis
  proof
    assume "j_onParentUpdated j = None"
    then show ?thesis
      using slot sc assms(3)
      by (simp add: onParentInserted_def onParentInserted_related_def Let_def
          del: getprop.simps split: promise.splits)
  next
    assume "j_onParentUpdated j = Some BaseOnParentInserted"
    then show ?thesis
      using slot sc assms(3)
      by (simp add: onParentInserted_def onParentInserted_related_def onParentInserted_base_def
          Let_def del: getprop.simps split: promise.splits)
  qed
qed

theorem onParentInserted_resync_witness:
  "k_out (joint ex_collections ex_heap ex_options) = Inr ex_joint
   \<and> opt_relatedListName ex_options = Some ''children''
   \<and> ''children'' \<noteq> []
   \<and> opt_relatedListFields ex_options = Some 1
   \<and> calls (onParentInserted ex_collections ex_heap' ex_joint ex_parent)
       = [ChildUpdate (JObj [(''parent'', JObj [(''name'', JStr ''Acme''), (''id'', JStr ''P1'')])])
                      (JObj [(''fk'', JStr ''EXT-1'')]),
          ChildFind (JObj [(''fk'', JStr ''EXT-1'')]),
          ParentUpdate (JObj [(''children'',
                               JArr [JObj [(''title'', JStr ''Pipe''), (''id'', JStr ''C1'')]] [])])
                       (JObj [(''extId'', JStr ''EXT-1'')])]
   \<and> calls (onParentInserted ex_collections ex_heap' ex_joint [(''id'', JStr ''P2''), (''extId'', JStr ''EXT-2'')])
       = [ChildUpdate (JObj [(''parent'', JObj [(''id'', JStr ''P2'')])])
                      (JObj [(''fk'', JStr ''EXT-2'')]),
          ChildFind (JObj [(''fk'', JStr ''EXT-2'')])]"
proof -
  have a: "k_out (joint ex_collections ex_heap ex_options) = Inr ex_joint"
    by (simp add: joint_ex)
  have b: "opt_relatedListName ex_options = Some ''children''"
    and d: "opt_relatedListFields ex_options = Some 1"
    by (simp_all add: ex_options_def)
  have c: "''children'' \<noteq> []" by simp
  note T = onParentInserted_resync[OF a b c d, where h = ex_heap']
  have t1: "calls (onParentInserted ex_collections ex_heap' ex_joint ex_parent)
       = [ChildUpdate (JObj [(''parent'', JObj [(''name'', JStr ''Acme''), (''id'', JStr ''P1'')])])
                      (JObj [(''fk'', JStr ''EXT-1'')]),
          ChildFind (JObj [(''fk'', JStr ''EXT-1'')]),
          ParentUpdate (JObj [(''children'',
                               JArr [JObj [(''title'', JStr ''Pipe''), (''id'', JStr ''C1'')]] [])])
                       (JObj [(''extId'', JStr ''EXT-1'')])]"
    unfolding T[where parent = ex_parent]
    by (simp add: extractNamedFields_def ex_defs ex_options_def)
  have t2: "calls (onParentInserted ex_collections ex_heap' ex_joint [(''id'', JStr ''P2''), (''extId'', JStr ''EXT-2'')])
       = [ChildUpdate (JObj [(''parent'', JObj [(''id'', JStr ''P2'')])])
                      (JObj [(''fk'', JStr ''EXT-2'')]),
          ChildFind (JObj [(''fk'', JStr ''EXT-2'')])]"
    unfolding T[where parent = "[(''id'', JStr ''P2''), (''extId'', JStr ''EXT-2'')]"]
    by (simp add: extractNamedFields_def ex_defs ex_options_def)
  from a b c d t1 t2 show ?thesis by blast
qed

text \<open>
  C2 does not hold of the code. The function of line 58 obtains the promise of
  \<^verbatim>\<open>childCollection.update\<close> and returns \<^verbatim>\<open>undefined\<close>: with a child collection whose
  update rejects, the hook has made the call, the rejected promise is dropped and the
  caller gets \<^verbatim>\<open>undefined\<close>. In the function of line 131 the value of
  \<^verbatim>\<open>j.onParentUpdated(parent)\<close> is discarded in the same way: the hook returns a promise
  that resolves although the delegated update has failed.
\<close>

theorem onParentInserted_drops_update_failure:
  "k_out (joint ex_collections ex_heap ex_options_base)
     = Inr ex_joint_base
   \<and> onParentInserted ex_collections_failing ex_heap'
        ex_joint_base ex_parent
     = \<lparr>calls = [ChildUpdate (JObj [(''parent'', JObj [(''name'', JStr ''Acme''), (''id'', JStr ''P1'')])])
                              (JObj [(''fk'', JStr ''EXT-1'')])],
        dropped = [Rejected (External 1)],
        returned = RetUndefined\<rparr>
   \<and> dropped (onParentInserted ex_collections_failing
                ex_heap' ex_joint ex_parent)
     = [Rejected (External 1)]
   \<and> returned (onParentInserted ex_collections_failing
                 ex_heap' ex_joint ex_parent)
     = RetPromise (Resolved JUndefined)"
  by (simp add: joint_def checkOptions_def onParentInserted_def onParentInserted_base_def
      onParentInserted_related_def extractNamedFields_def Let_def ex_defs ex_options_def ex_options_base_def
      ex_joint_base_def ex_collections_failing_def fun_eq_iff)

text \<open>
  C3 does not hold of the code. Construction only calls getters on the collections
  (\<open>joint_calls_are_getters\<close>), but \<^verbatim>\<open>parentFields.push\<close> and
  \<^verbatim>\<open>relatedListFields.push\<close> act on the caller's own arrays: after \<^verbatim>\<open>joint(ex_options)\<close>
  both arrays hold the local key as a new last entry, a second construction from the
  same options appends it again, and a caller who passes an empty \<^verbatim>\<open>parentFields\<close> array
  twice gets a joint without \<^verbatim>\<open>onParentUpdated\<close> first and one with it the second time.
\<close>

theorem joint_mutates_option_arrays:
  "arrays ex_heap 0 = [''name'']
   \<and> arrays ex_heap 1 = [''title'']
   \<and> \<not> isl (k_out (joint ex_collections ex_heap ex_options))
   \<and> arrays (k_heap (joint ex_collections ex_heap ex_options)) 0 = [''name'', ''id'']
   \<and> arrays (k_heap (joint ex_collections ex_heap ex_options)) 1 = [''title'', ''id'']
   \<and> arrays (k_heap (joint ex_collections (k_heap (joint ex_collections ex_heap ex_options))
                        ex_options)) 0 = [''name'', ''id'', ''id'']
   \<and> j_onParentUpdated (projr (k_out (joint ex_collections
          ex_heap_no_fields ex_options))) = None
   \<and> j_onParentUpdated (projr (k_out (joint ex_collections
          (k_heap (joint ex_collections ex_heap_no_fields ex_options))
          ex_options))) = Some BaseOnParentInserted"
  by (simp add: joint_def checkOptions_def Let_def ex_defs ex_options_def ex_heap_no_fields_def)

text \<open>
  C4, as stated, fails: with \<^verbatim>\<open>lookupField\<close> \<^verbatim>\<open>'title.x'\<close> and a record whose
  \<^verbatim>\<open>title\<close> is a string, the lookup by local key finds the parent and the parent has an
  external key, and yet the result rejects: \<^verbatim>\<open>objectPath.set\<close> cannot create the
  property \<^verbatim>\<open>x\<close> on a string and throws a \<^verbatim>\<open>TypeError\<close> inside the \<^verbatim>\<open>then\<close> callback.
  Nothing is written.
\<close>

theorem enhancePrepare_lookup_counterexample:
  "wrapped_prepare None ex_heap' 1 JNull = (ex_heap', Returns (Resolved 1))
   \<and> getprop (JObj (objects ex_heap' 1)) (parentFieldName ex_scope_title)
       = JObj [(''name'', JStr ''Acme''), (''id'', JStr ''P1'')]
   \<and> parentKeyField ex_scope_title = ''extId''
   \<and> lookupField ex_scope_title = ''title.x''
   \<and> getprop (JObj (objects ex_heap' 1)) ''title'' = JStr ''Pipe''
   \<and> parent_getLocalKeyField ex_collections = ''id''
   \<and> found_parent (parent_get ex_collections (JStr ''P1'')) = Some (JObj ex_parent)
   \<and> getprop (JObj ex_parent) ''extId'' = JStr ''EXT-1''
   \<and> enhancePrepare ex_js ex_collections ex_scope_title None ex_heap' 1 JNull
       = \<lparr>t_heap = ex_heap', t_calls = [ParentGetLocalKeyField, ParentGet (JStr ''P1'')],
          t_out = Returns (Rejected TypeError)\<rparr>
   \<and> rejects (enhancePrepare ex_js ex_collections ex_scope_title None ex_heap' 1 JNull)"
  by (simp add: ex_eval ex_defs ex_scope_title_def rejects_def)

text \<open>
  C4, amended. When the wrapped transform's output has a (truthy) value at
  \<^verbatim>\<open>parentFieldName\<close> without a (truthy) external key in it, the enhanced prepare asks
  the parent collection for its local-key field and looks the parent up by the local key
  taken from the snapshot; these are its only calls. When the lookup finds no parent (it
  resolves with a falsy value, or rejects) or the parent found has no (truthy) external
  key, the result rejects and the store is as the wrapped transform left it. Otherwise
  the key is written with \<^verbatim>\<open>objectPath.set(record, lookupField, key)\<close>: when that
  throws, the result rejects with the exception and the store is as the wrapped transform
  left it; when it returns, the result resolves to the record and the store is the one
  \<^verbatim>\<open>set\<close> leaves. For a non-empty \<^verbatim>\<open>lookupField\<close> that is a plain path on the record,
  in particular a plain field name, \<^verbatim>\<open>set\<close> does not throw: the result rejects if and
  only if no parent is found or the parent found has no external key, and on success
  \<^verbatim>\<open>objectPath.get(record, lookupField)\<close> is the parent's external key.
\<close>

theorem enhancePrepare_lookup:
  assumes "wrapped_prepare prepare h input action = (hw, Returns (Resolved prepared))"
    and "truthy (getprop (JObj (objects hw prepared)) (parentFieldName s))"
    and "\<not> truthy (getprop (deref hw (getprop (JObj (objects hw prepared)) (parentFieldName s)))
                     (parentKeyField s))"
    and "key = getprop (deref hw (getprop (JObj (objects hw prepared)) (parentFieldName s)))
                 (parent_getLocalKeyField cs)"
  shows "t_calls (enhancePrepare e cs s prepare h input action)
           = [ParentGetLocalKeyField, ParentGet key]
       \<and> (case found_parent (parent_get cs key) of
            None \<Rightarrow> rejects (enhancePrepare e cs s prepare h input action)
                    \<and> t_heap (enhancePrepare e cs s prepare h input action) = hw
          | Some parent \<Rightarrow>
              if truthy (getprop (deref hw parent) (parentKeyField s)) then
                (case objectPath_set e hw (JRef prepared) (lookupField s)
                        (getprop (deref hw parent) (parentKeyField s)) of
                   Inl x \<Rightarrow> t_out (enhancePrepare e cs s prepare h input action)
                              = Returns (Rejected x)
                            \<and> t_heap (enhancePrepare e cs s prepare h input action) = hw
                 | Inr (h', u) \<Rightarrow> u = JRef prepared
                            \<and> t_out (enhancePrepare e cs s prepare h input action)
                                = Returns (Resolved prepared)
                            \<and> t_heap (enhancePrepare e cs s prepare h input action) = h')
              else rejects (enhancePrepare e cs s prepare h input action)
                   \<and> t_heap (enhancePrepare e cs s prepare h input action) = hw)
       \<and> (lookupField s \<noteq> [] \<and> plain_path hw (JRef prepared) (split_on CHR ''.'' (lookupField s))
            \<longrightarrow> (rejects (enhancePrepare e cs s prepare h input action)
                   \<longleftrightarrow> (case found_parent (parent_get cs key) of
                           None \<Rightarrow> True
                         | Some parent \<Rightarrow> \<not> truthy (getprop (deref hw parent) (parentKeyField s))))
              \<and> (\<not> rejects (enhancePrepare e cs s prepare h input action)
                   \<longrightarrow> t_out (enhancePrepare e cs s prepare h input action)
                         = Returns (Resolved prepared)
                     \<and> (\<exists>parent. found_parent (parent_get cs key) = Some parent
                          \<and> objectPath_get (t_heap (enhancePrepare e cs s prepare h input action))
                               (JRef prepared) (lookupField s)
                             = getprop (deref hw parent) (parentKeyField s))))"
proof -
  let ?cl = "[ParentGetLocalKeyField, ParentGet key]"
  note unf = prepare_lookup[OF assms(1,2,3,4) refl, of e]
  show ?thesis
  proof (cases "parent_get cs key")
    case (Rejected x)
    with unf show ?thesis by (simp add: rejects_def)
  next
    case (Resolved parent)
    show ?thesis
    proof (cases "truthy parent \<and> truthy (getprop (deref hw parent) (parentKeyField s))")
      case False
      with unf Resolved show ?thesis by (auto simp: rejects_def)
    next
      case True
      let ?v = "getprop (deref hw parent) (parentKeyField s)"
      from unf Resolved True have eq: "enhancePrepare e cs s prepare h input action
          = set_and_return e s hw prepared ?v ?cl" by simp
      have fp: "found_parent (parent_get cs key) = Some parent"
        using Resolved True by simp
      note c = set_and_return_case[where s = s and h = hw and p = prepared and e = e
                 and v = ?v and cl = ?cl]
      have plain: "lookupField s \<noteq> [] \<and> plain_path hw (JRef prepared)
                      (split_on CHR ''.'' (lookupField s))
         \<longrightarrow> \<not> rejects (set_and_return e s hw prepared ?v ?cl)
           \<and> t_out (set_and_return e s hw prepared ?v ?cl) = Returns (Resolved prepared)
           \<and> objectPath_get (t_heap (set_and_return e s hw prepared ?v ?cl)) (JRef prepared)
                (lookupField s) = ?v"
        using set_and_return_plain[where s = s and h = hw and p = prepared and e = e
                 and v = ?v and cl = ?cl]
              set_and_return_resolved[where s = s and h = hw and p = prepared and e = e
                 and v = ?v and cl = ?cl]
        by blast
      have 1: "t_calls (enhancePrepare e cs s prepare h input action) = ?cl"
        unfolding eq by (rule set_and_return_calls)
      have 2: "(case found_parent (parent_get cs key) of
            None \<Rightarrow> rejects (enhancePrepare e cs s prepare h input action)
                    \<and> t_heap (enhancePrepare e cs s prepare h input action) = hw
          | Some parent \<Rightarrow>
              if truthy (getprop (deref hw parent) (parentKeyField s)) then
                (case objectPath_set e hw (JRef prepared) (lookupField s)
                        (getprop (deref hw parent) (parentKeyField s)) of
                   Inl x \<Rightarrow> t_out (enhancePrepare e cs s prepare h input action)
                              = Returns (Rejected x)
                            \<and> t_heap (enhancePrepare e cs s prepare h input action) = hw
                 | Inr (h', u) \<Rightarrow> u = JRef prepared
                            \<and> t_out (enhancePrepare e cs s prepare h input action)
                                = Returns (Resolved prepared)
                            \<and> t_heap (enhancePrepare e cs s prepare h input action) = h')
              else rejects (enhancePrepare e cs s prepare h input action)
                   \<and> t_heap (enhancePrepare e cs s prepare h input action) = hw)"
        unfolding eq fp using c True by simp
      have 3: "lookupField s \<noteq> [] \<and> plain_path hw (JRef prepared) (split_on CHR ''.'' (lookupField s))
            \<longrightarrow> (rejects (enhancePrepare e cs s prepare h input action)
                   \<longleftrightarrow> (case found_parent (parent_get cs key) of
                           None \<Rightarrow> True
                         | Some parent \<Rightarrow> \<not> truthy (getprop (deref hw parent) (parentKeyField s))))
              \<and> (\<not> rejects (enhancePrepare e cs s prepare h input action)
                   \<longrightarrow> t_out (enhancePrepare e cs s prepare h input action)
                         = Returns (Resolved prepared)
                     \<and> (\<exists>parent. found_parent (parent_get cs key) = Some parent
                          \<and> objectPath_get (t_heap (enhancePrepare e cs s prepare h input action))
                               (JRef prepared) (lookupField s)
                             = getprop (deref hw parent) (parentKeyField s)))"
        unfolding eq fp using plain True by simp
      from 1 2 3 show ?thesis by blast
    qed
  qed
qed

theorem enhancePrepare_lookup_witness:
  "wrapped_prepare None ex_heap' 1 JNull = (ex_heap', Returns (Resolved 1))
   \<and> truthy (getprop (JObj (objects ex_heap' 1)) (parentFieldName ex_scope))
   \<and> \<not> truthy (getprop (deref ex_heap' (getprop (JObj (objects ex_heap' 1)) (parentFieldName ex_scope)))
                  (parentKeyField ex_scope))
   \<and> JStr ''P1'' = getprop (deref ex_heap' (getprop (JObj (objects ex_heap' 1))
                                (parentFieldName ex_scope))) (parent_getLocalKeyField ex_collections)
   \<and> lookupField ex_scope \<noteq> []
   \<and> plain_path ex_heap' (JRef 1) (split_on CHR ''.'' (lookupField ex_scope))
   \<and> t_calls (enhancePrepare ex_js ex_collections ex_scope None ex_heap' 1 JNull)
        = [ParentGetLocalKeyField, ParentGet (JStr ''P1'')]
   \<and> \<not> rejects (enhancePrepare ex_js ex_collections ex_scope None ex_heap' 1 JNull)
   \<and> t_out (enhancePrepare ex_js ex_collections ex_scope None ex_heap' 1 JNull) = Returns (Resolved 1)
   \<and> objectPath_get (t_heap (enhancePrepare ex_js ex_collections ex_scope None ex_heap' 1 JNull))
        (JRef 1) ''fk'' = JStr ''EXT-1''
   \<and> rejects (enhancePrepare ex_js
                 (ex_collections\<lparr>parent_get := \<lambda>q. Resolved (JObj [(''id'', JStr ''P1'')])\<rparr>)
                 ex_scope None ex_heap' 1 JNull)
   \<and> t_heap (enhancePrepare ex_js
                 (ex_collections\<lparr>parent_get := \<lambda>q. Resolved (JObj [(''id'', JStr ''P1'')])\<rparr>)
                 ex_scope None ex_heap' 1 JNull) = ex_heap'
   \<and> lookupField ex_scope_title = ''title.x''
   \<and> t_out (enhancePrepare ex_js ex_collections ex_scope_title None ex_heap' 1 JNull)
       = Returns (Rejected TypeError)"
proof -
  let ?cs' = "ex_collections\<lparr>parent_get := \<lambda>q. Resolved (JObj [(''id'', JStr ''P1'')])\<rparr>"
  have a: "wrapped_prepare None ex_heap' 1 JNull = (ex_heap', Returns (Resolved 1))"
    by (simp add: wrapped_prepare_def)
  have sn: "getprop (JObj (objects ex_heap' 1)) (parentFieldName ex_scope)
            = JObj [(''name'', JStr ''Acme''), (''id'', JStr ''P1'')]"
    by (simp add: ex_heap'_def ex_heap_def ex_scope_def)
  have sn3: "getprop (JObj (objects ex_heap' 1)) (parentFieldName ex_scope_title)
            = JObj [(''name'', JStr ''Acme''), (''id'', JStr ''P1'')]"
    by (simp add: ex_heap'_def ex_heap_def ex_scope_def ex_scope_title_def)
  have b: "truthy (getprop (JObj (objects ex_heap' 1)) (parentFieldName ex_scope))"
    unfolding sn by simp
  have b3: "truthy (getprop (JObj (objects ex_heap' 1)) (parentFieldName ex_scope_title))"
    unfolding sn3 by simp
  have c: "\<not> truthy (getprop (deref ex_heap' (getprop (JObj (objects ex_heap' 1))
                  (parentFieldName ex_scope))) (parentKeyField ex_scope))"
    unfolding sn by (simp add: ex_scope_def)
  have c3: "\<not> truthy (getprop (deref ex_heap' (getprop (JObj (objects ex_heap' 1))
                  (parentFieldName ex_scope_title))) (parentKeyField ex_scope_title))"
    unfolding sn3 by (simp add: ex_scope_def ex_scope_title_def)
  have l: "lookupField ex_scope = ''fk''" by (simp add: ex_scope_def)
  have l3: "lookupField ex_scope_title = ''title.x''" by (simp add: ex_scope_title_def)
  have ne: "lookupField ex_scope \<noteq> []" by (simp add: l)
  have pp: "plain_path ex_heap' (JRef 1) (split_on CHR ''.'' (lookupField ex_scope))"
    by (simp add: l)
  have k: "JStr ''P1'' = getprop (deref ex_heap' (getprop (JObj (objects ex_heap' 1))
             (parentFieldName ex_scope))) (parent_getLocalKeyField ex_collections)"
    unfolding sn by (simp add: ex_collections_def)
  have k': "JStr ''P1'' = getprop (deref ex_heap' (getprop (JObj (objects ex_heap' 1))
             (parentFieldName ex_scope))) (parent_getLocalKeyField ?cs')"
    unfolding sn by (simp add: ex_collections_def)
  have k3: "JStr ''P1'' = getprop (deref ex_heap' (getprop (JObj (objects ex_heap' 1))
             (parentFieldName ex_scope_title))) (parent_getLocalKeyField ex_collections)"
    unfolding sn3 by (simp add: ex_collections_def)
  have f: "found_parent (parent_get ex_collections (JStr ''P1'')) = Some (JObj ex_parent)"
    by (simp add: ex_collections_def)
  have f': "found_parent (parent_get ?cs' (JStr ''P1'')) = Some (JObj [(''id'', JStr ''P1'')])"
    by simp
  have x: "getprop (deref ex_heap' (JObj ex_parent)) (parentKeyField ex_scope) = JStr ''EXT-1''"
    by (simp add: ex_parent_def ex_scope_def)
  have x': "\<not> truthy (getprop (deref ex_heap' (JObj [(''id'', JStr ''P1'')])) (parentKeyField ex_scope))"
    by (simp add: ex_scope_def)
  have x3: "getprop (deref ex_heap' (JObj ex_parent)) (parentKeyField ex_scope_title) = JStr ''EXT-1''"
    by (simp add: ex_parent_def ex_scope_def ex_scope_title_def)
  have s3: "objectPath_set ex_js ex_heap' (JRef 1) ''title.x'' (JStr ''EXT-1'') = Inl TypeError"
    by (simp add: ex_eval ex_heap'_def ex_heap_def ex_js_def)
  note T = enhancePrepare_lookup[OF a b c k, where e = ex_js]
  note T' = enhancePrepare_lookup[OF a b c k', where e = ex_js]
  note T3 = enhancePrepare_lookup[OF a b3 c3 k3, where e = ex_js]
  from T have t1: "t_calls (enhancePrepare ex_js ex_collections ex_scope None ex_heap' 1 JNull)
        = [ParentGetLocalKeyField, ParentGet (JStr ''P1'')]"
    by (rule conjunct1)
  from T ne pp have P: "(rejects (enhancePrepare ex_js ex_collections ex_scope None ex_heap' 1 JNull)
                   \<longleftrightarrow> \<not> truthy (JStr ''EXT-1''))
              \<and> (\<not> rejects (enhancePrepare ex_js ex_collections ex_scope None ex_heap' 1 JNull)
                   \<longrightarrow> t_out (enhancePrepare ex_js ex_collections ex_scope None ex_heap' 1 JNull)
                         = Returns (Resolved 1)
                     \<and> objectPath_get (t_heap (enhancePrepare ex_js ex_collections ex_scope None
                           ex_heap' 1 JNull)) (JRef 1) (lookupField ex_scope) = JStr ''EXT-1'')"
    by (simp add: f x del: getprop.simps deref.simps)
  from P have t2: "\<not> rejects (enhancePrepare ex_js ex_collections ex_scope None ex_heap' 1 JNull)"
    by simp
  from P t2 have t3: "t_out (enhancePrepare ex_js ex_collections ex_scope None ex_heap' 1 JNull)
                      = Returns (Resolved 1)"
    by blast
  from P t2 have "objectPath_get (t_heap (enhancePrepare ex_js ex_collections ex_scope
                        None ex_heap' 1 JNull)) (JRef 1) (lookupField ex_scope) = JStr ''EXT-1''"
    by blast
  then have t4: "objectPath_get (t_heap (enhancePrepare ex_js ex_collections ex_scope
                        None ex_heap' 1 JNull)) (JRef 1) ''fk'' = JStr ''EXT-1''"
    unfolding l .
  from T' have Q: "rejects (enhancePrepare ex_js ?cs' ex_scope None ex_heap' 1 JNull)
       \<and> t_heap (enhancePrepare ex_js ?cs' ex_scope None ex_heap' 1 JNull) = ex_heap'"
    using x' by (simp add: f' del: getprop.simps deref.simps parent_get_def)
  from Q have t5: "rejects (enhancePrepare ex_js ?cs' ex_scope None ex_heap' 1 JNull)"
    by (rule conjunct1)
  from Q have t6: "t_heap (enhancePrepare ex_js ?cs' ex_scope None ex_heap' 1 JNull) = ex_heap'"
    by (rule conjunct2)
  from T3 have t7: "t_out (enhancePrepare ex_js ex_collections ex_scope_title None ex_heap' 1 JNull)
       = Returns (Rejected TypeError)"
    by (simp add: f x3 l3 s3 del: getprop.simps deref.simps One_nat_def)
  from a b c k ne pp t1 t2 t3 t4 t5 t6 l3 t7 show ?thesis by blast
qed

text \<open>
  C5. When the foreign key at \<^verbatim>\<open>lookupField\<close> of the wrapped transform's output is set
  and the lookup by external key resolves to no parent (\<^verbatim>\<open>null\<close>, \<^verbatim>\<open>undefined\<close>), the
  enhanced cleanse raises no failure: it resolves to the wrapped transform's output
  record, the store is exactly as the wrapped transform left it (no snapshot is written
  at \<^verbatim>\<open>parentFieldName\<close>), and besides the lookup the only effect is the warning.
  Here and below \<open>hw\<close> is the store as the wrapped transform leaves it.
\<close>

theorem enhanceCleanse_soft_miss:
  assumes "wrapped_cleanse cleanse h input = (hw, Returns (Resolved cleaned))"
    and "truthy (objectPath_get hw (JRef cleaned) (lookupField s))"
    and "parent_get cs (JObj [(parentKeyField s,
            objectPath_get hw (JRef cleaned) (lookupField s))]) = Resolved p"
    and "\<not> truthy p"
  shows "enhanceCleanse cs s cleanse h input =
           \<lparr>t_heap = hw,
            t_calls = [ParentGet (JObj [(parentKeyField s,
                          objectPath_get hw (JRef cleaned) (lookupField s))]),
                       ConsoleWarn (parentEntity s)
                          (objectPath_get hw (JRef cleaned) (lookupField s))],
            t_out = Returns (Resolved cleaned)\<rparr>"
  using assms by (simp add: enhanceCleanse_def cleanse_then_def Let_def)

theorem enhanceCleanse_soft_miss_witness:
  "wrapped_cleanse None ex_heap' 3 = (ex_heap', Returns (Resolved 3))
   \<and> truthy (objectPath_get ex_heap' (JRef 3) (lookupField ex_scope))
   \<and> parent_get ex_collections (JObj [(parentKeyField ex_scope,
            objectPath_get ex_heap' (JRef 3) (lookupField ex_scope))]) = Resolved JNull
   \<and> \<not> truthy JNull
   \<and> enhanceCleanse ex_collections ex_scope None ex_heap' 3 =
           \<lparr>t_heap = ex_heap',
            t_calls = [ParentGet (JObj [(''extId'', JStr ''EXT-9'')]),
                       ConsoleWarn ''Account'' (JStr ''EXT-9'')],
            t_out = Returns (Resolved 3)\<rparr>"
proof -
  have a: "wrapped_cleanse None ex_heap' 3 = (ex_heap', Returns (Resolved 3))"
    by (simp add: wrapped_cleanse_def)
  have g: "objectPath_get ex_heap' (JRef 3) (lookupField ex_scope) = JStr ''EXT-9''"
    by (simp add: ex_heap'_def ex_heap_def ex_scope_def objectPath_get_def
        getShallowProperty_def)
  have b: "truthy (objectPath_get ex_heap' (JRef 3) (lookupField ex_scope))"
    by (simp add: g)
  have c: "parent_get ex_collections (JObj [(parentKeyField ex_scope,
            objectPath_get ex_heap' (JRef 3) (lookupField ex_scope))]) = Resolved JNull"
    by (simp add: g) (simp add: ex_collections_def ex_scope_def)
  have d: "\<not> truthy JNull" by simp
  from enhanceCleanse_soft_miss[OF a b c d] a b c d g show ?thesis
    by (simp add: ex_scope_def)
qed

text \<open>
  C6 does not hold of the code. The snapshot is \<^verbatim>\<open>extractNamedFields(parent, parentFields)\<close>
  over the array \<^verbatim>\<open>parentFields\<close> as it is when the transform runs. Line 53 has pushed
  the parent collection's local key onto it; when the caller passes one array as both
  \<^verbatim>\<open>parentFields\<close> and \<^verbatim>\<open>relatedListFields\<close>, line 112 pushes the child collection's
  local key onto the same array. With \<^verbatim>\<open>parentFields\<close> \<^verbatim>\<open>['name']\<close>, parent local key
  \<^verbatim>\<open>id\<close> and child local key \<^verbatim>\<open>cid\<close> the array is \<^verbatim>\<open>['name', 'id', 'cid']\<close>, and the
  snapshot of an account that has a field \<^verbatim>\<open>cid\<close> carries it: a field that is neither
  among the configured \<^verbatim>\<open>parentFields\<close> nor the parent's local key. When the two options
  are different arrays the snapshot is as the claim says
  (\<open>enhanceCleanse_snapshot_distinct\<close>).
\<close>

theorem enhanceCleanse_snapshot_shared_array:
  "opt_parentFields ex_options_alias = opt_relatedListFields ex_options_alias
   \<and> configured_parentFields ex_heap ex_options_alias = [''name'']
   \<and> parent_getLocalKeyField ex_collections_cid = ''id''
   \<and> \<not> isl (k_out (joint ex_collections_cid ex_heap ex_options_alias))
   \<and> read_arr (k_heap (joint ex_collections_cid ex_heap ex_options_alias))
        (parentFields (j_scope (projr (k_out (joint ex_collections_cid ex_heap ex_options_alias)))))
       = [''name'', ''id'', ''cid'']
   \<and> t_out (enhanceCleanse ex_collections_cid
               (j_scope (projr (k_out (joint ex_collections_cid ex_heap ex_options_alias))))
               None (k_heap (joint ex_collections_cid ex_heap ex_options_alias)) 0)
       = Returns (Resolved 0)
   \<and> getprop (JObj (objects (t_heap (enhanceCleanse ex_collections_cid
               (j_scope (projr (k_out (joint ex_collections_cid ex_heap ex_options_alias))))
               None (k_heap (joint ex_collections_cid ex_heap ex_options_alias)) 0)) 0)) ''parent''
       = JObj [(''name'', JStr ''Acme''), (''id'', JStr ''P1''), (''cid'', JStr ''X1'')]"
proof -
  have j: "joint ex_collections_cid ex_heap ex_options_alias
     = \<lparr>k_heap = ex_heap\<lparr>arrays := (arrays ex_heap)(0 := [''name'', ''id'', ''cid''])\<rparr>,
        k_calls = [ParentGetKeyField, ParentGetLocalKeyField, ChildGetLocalKeyField],
        k_out = Inr (ex_joint\<lparr>
           j_onChildUpdated := Some (OnChildUpsert (ex_related\<lparr>relatedListFields := 0, childKeyField := ''cid''\<rparr>)),
           j_onChildInserted := Some (OnChildUpsert (ex_related\<lparr>relatedListFields := 0, childKeyField := ''cid''\<rparr>)),
           j_onChildRemoved := Some (OnChildRemoved (ex_related\<lparr>relatedListFields := 0, childKeyField := ''cid''\<rparr>)),
           j_onParentInserted := RelatedOnParentInserted (ex_related\<lparr>relatedListFields := 0, childKeyField := ''cid''\<rparr>)\<rparr>)\<rparr>"
    by (simp add: joint_def checkOptions_def Let_def ex_collections_cid_def ex_options_alias_def
        ex_options_def ex_defs fun_eq_iff)
  show ?thesis
    unfolding j
    by (simp add: enhanceCleanse_def wrapped_cleanse_def cleanse_then_def Let_def
        objectPath_get_def getShallowProperty_def extractNamedFields_def configured_parentFields_def
        ex_collections_cid_def ex_options_alias_def ex_options_def ex_defs)
qed

text \<open>
  C7, as stated, fails: with \<^verbatim>\<open>lookupField\<close> \<^verbatim>\<open>'title.x'\<close>, a record whose \<^verbatim>\<open>title\<close>
  is a string and whose snapshot carries the external key, nothing is copied:
  \<^verbatim>\<open>objectPath.set\<close> throws a \<^verbatim>\<open>TypeError\<close>, the result rejects and the record is as it
  was.
\<close>

theorem enhancePrepare_fast_path_counterexample:
  "wrapped_prepare None ex_heap' 2 JNull = (ex_heap', Returns (Resolved 2))
   \<and> getprop (JObj (objects ex_heap' 2)) (parentFieldName ex_scope_title)
       = JObj [(''id'', JStr ''P1''), (''extId'', JStr ''EXT-1'')]
   \<and> parentKeyField ex_scope_title = ''extId''
   \<and> lookupField ex_scope_title = ''title.x''
   \<and> getprop (JObj (objects ex_heap' 2)) ''title'' = JStr ''Pipe''
   \<and> enhancePrepare ex_js ex_collections ex_scope_title None ex_heap' 2 JNull
       = \<lparr>t_heap = ex_heap', t_calls = [], t_out = Returns (Rejected TypeError)\<rparr>
   \<and> objectPath_get ex_heap' (JRef 2) ''title.x'' = JUndefined"
  by (simp add: enhancePrepare_def prepare_then_def set_and_return_def wrapped_prepare_def
      objectPath_set_def objectPath_get_def getShallowProperty_def Let_def ex_defs
      ex_scope_title_def index_key_def canonical_nat_def is_digit_def)

text \<open>
  C7, amended. When the snapshot at \<^verbatim>\<open>parentFieldName\<close> of the wrapped transform's
  output carries a (truthy) value at the parent's external-key field, the enhanced
  prepare makes no call on either collection and writes that value with
  \<^verbatim>\<open>objectPath.set(record, lookupField, value)\<close>. When \<^verbatim>\<open>set\<close> throws (an inner segment
  of \<^verbatim>\<open>lookupField\<close> holds a scalar or \<^verbatim>\<open>null\<close>, or the value is assigned to the
  \<^verbatim>\<open>length\<close> of an array and is no length), the result rejects with that exception and
  the store is as the wrapped transform left it; when it returns, the result resolves to
  the same record and the store is the one \<^verbatim>\<open>set\<close> leaves. For a non-empty
  \<^verbatim>\<open>lookupField\<close> that is a plain path on the record, in particular a plain field name,
  the result resolves and \<^verbatim>\<open>objectPath.get(record, lookupField)\<close> is exactly that value.
\<close>

theorem enhancePrepare_fast_path:
  assumes "wrapped_prepare prepare h input action = (hw, Returns (Resolved prepared))"
    and "v = getprop (deref hw (getprop (JObj (objects hw prepared)) (parentFieldName s)))
               (parentKeyField s)"
    and "truthy v"
  shows "t_calls (enhancePrepare e cs s prepare h input action) = []
       \<and> (case objectPath_set e hw (JRef prepared) (lookupField s) v of
            Inl x \<Rightarrow> t_out (enhancePrepare e cs s prepare h input action) = Returns (Rejected x)
                     \<and> t_heap (enhancePrepare e cs s prepare h input action) = hw
          | Inr (h', u) \<Rightarrow> u = JRef prepared
                     \<and> t_out (enhancePrepare e cs s prepare h input action)
                         = Returns (Resolved prepared)
                     \<and> t_heap (enhancePrepare e cs s prepare h input action) = h')
       \<and> (lookupField s \<noteq> [] \<and> plain_path hw (JRef prepared) (split_on CHR ''.'' (lookupField s))
            \<longrightarrow> t_out (enhancePrepare e cs s prepare h input action) = Returns (Resolved prepared)
              \<and> objectPath_get (t_heap (enhancePrepare e cs s prepare h input action))
                   (JRef prepared) (lookupField s) = v)"
proof -
  have eq: "enhancePrepare e cs s prepare h input action = set_and_return e s hw prepared v []"
    using prepare_fast[OF assms(1)] assms(2,3) by simp
  have plain: "lookupField s \<noteq> [] \<and> plain_path hw (JRef prepared) (split_on CHR ''.'' (lookupField s))
      \<longrightarrow> t_out (set_and_return e s hw prepared v []) = Returns (Resolved prepared)
        \<and> objectPath_get (t_heap (set_and_return e s hw prepared v [])) (JRef prepared)
             (lookupField s) = v"
    using set_and_return_plain[where s = s and h = hw and p = prepared and e = e and v = v
             and cl = "[]"]
          set_and_return_out[where s = s and h = hw and p = prepared and e = e and v = v
             and cl = "[]"]
    by blast
  show ?thesis
    unfolding eq
    using set_and_return_calls[where s = s and h = hw and p = prepared and e = e and v = v
             and cl = "[]"]
          set_and_return_case[where s = s and h = hw and p = prepared and e = e and v = v
             and cl = "[]"] plain
    by blast
qed

theorem enhancePrepare_fast_path_witness:
  "wrapped_prepare None ex_heap' 2 JNull = (ex_heap', Returns (Resolved 2))
   \<and> JStr ''EXT-1'' = getprop (deref ex_heap' (getprop (JObj (objects ex_heap' 2))
                                     (parentFieldName ex_scope))) (parentKeyField ex_scope)
   \<and> truthy (JStr ''EXT-1'')
   \<and> lookupField ex_scope \<noteq> []
   \<and> plain_path ex_heap' (JRef 2) (split_on CHR ''.'' (lookupField ex_scope))
   \<and> t_calls (enhancePrepare ex_js ex_collections ex_scope None ex_heap' 2 JNull) = []
   \<and> t_out (enhancePrepare ex_js ex_collections ex_scope None ex_heap' 2 JNull)
       = Returns (Resolved 2)
   \<and> objectPath_get (t_heap (enhancePrepare ex_js ex_collections ex_scope None ex_heap' 2 JNull))
        (JRef 2) ''fk'' = JStr ''EXT-1''
   \<and> lookupField ex_scope_refs = ''refs.0''
   \<and> t_out (enhancePrepare ex_js ex_collections ex_scope_refs None ex_heap' 2 JNull)
       = Returns (Resolved 2)
   \<and> getprop (JObj (objects (t_heap (enhancePrepare ex_js ex_collections ex_scope_refs None
                                       ex_heap' 2 JNull)) 2)) ''refs''
       = JArr [JStr ''EXT-1''] []
   \<and> lookupField ex_scope_title = ''title.x''
   \<and> t_out (enhancePrepare ex_js ex_collections ex_scope_title None ex_heap' 2 JNull)
       = Returns (Rejected TypeError)"
proof -
  have a: "wrapped_prepare None ex_heap' 2 JNull = (ex_heap', Returns (Resolved 2))"
    by (simp add: wrapped_prepare_def)
  have v: "JStr ''EXT-1'' = getprop (deref ex_heap' (getprop (JObj (objects ex_heap' 2))
                                     (parentFieldName ex_scope))) (parentKeyField ex_scope)"
    by (simp add: ex_heap'_def ex_heap_def ex_scope_def)
  have v2: "JStr ''EXT-1'' = getprop (deref ex_heap' (getprop (JObj (objects ex_heap' 2))
                                     (parentFieldName ex_scope_refs))) (parentKeyField ex_scope_refs)"
    by (simp add: ex_heap'_def ex_heap_def ex_scope_def ex_scope_refs_def)
  have v3: "JStr ''EXT-1'' = getprop (deref ex_heap' (getprop (JObj (objects ex_heap' 2))
                                     (parentFieldName ex_scope_title))) (parentKeyField ex_scope_title)"
    by (simp add: ex_heap'_def ex_heap_def ex_scope_def ex_scope_title_def)
  have t: "truthy (JStr ''EXT-1'')" by simp
  have l: "lookupField ex_scope = ''fk''" by (simp add: ex_scope_def)
  have l2: "lookupField ex_scope_refs = ''refs.0''" by (simp add: ex_scope_refs_def)
  have l3: "lookupField ex_scope_title = ''title.x''" by (simp add: ex_scope_title_def)
  have ne: "lookupField ex_scope \<noteq> []" by (simp add: l)
  have pp: "plain_path ex_heap' (JRef 2) (split_on CHR ''.'' (lookupField ex_scope))"
    by (simp add: l)
  have s2: "objectPath_set ex_js ex_heap' (JRef 2) ''refs.0'' (JStr ''EXT-1'')
            = Inr (ex_heap'\<lparr>objects := (objects ex_heap')
                     (2 := objects ex_heap' 2 @ [(''refs'', JArr [JStr ''EXT-1''] [])])\<rparr>, JRef 2)"
    by (simp add: ex_eval ex_heap'_def ex_heap_def ex_js_def)
  have s3: "objectPath_set ex_js ex_heap' (JRef 2) ''title.x'' (JStr ''EXT-1'') = Inl TypeError"
    by (simp add: ex_eval ex_heap'_def ex_heap_def ex_js_def)
  note T = enhancePrepare_fast_path[OF a v t, where e = ex_js and cs = ex_collections]
  note T2 = enhancePrepare_fast_path[OF a v2 t, where e = ex_js and cs = ex_collections,
              unfolded l2 s2]
  note T3 = enhancePrepare_fast_path[OF a v3 t, where e = ex_js and cs = ex_collections,
              unfolded l3 s3]
  from T have c1: "t_calls (enhancePrepare ex_js ex_collections ex_scope None ex_heap' 2 JNull) = []"
    by (rule conjunct1)
  from T ne pp have c2: "t_out (enhancePrepare ex_js ex_collections ex_scope None ex_heap' 2 JNull)
       = Returns (Resolved 2)"
    by blast
  from T ne pp have "objectPath_get (t_heap (enhancePrepare ex_js ex_collections ex_scope None
      ex_heap' 2 JNull)) (JRef 2) (lookupField ex_scope) = JStr ''EXT-1''"
    by blast
  then have c3: "objectPath_get (t_heap (enhancePrepare ex_js ex_collections ex_scope None
      ex_heap' 2 JNull)) (JRef 2) ''fk'' = JStr ''EXT-1''"
    unfolding l .
  from T2 have c4: "t_out (enhancePrepare ex_js ex_collections ex_scope_refs None ex_heap' 2 JNull)
       = Returns (Resolved 2)"
    by simp
  from T2 have "t_heap (enhancePrepare ex_js ex_collections ex_scope_refs None ex_heap' 2 JNull)
       = ex_heap'\<lparr>objects := (objects ex_heap')
                     (2 := objects ex_heap' 2 @ [(''refs'', JArr [JStr ''EXT-1''] [])])\<rparr>"
    by simp
  then have c5: "getprop (JObj (objects (t_heap (enhancePrepare ex_js ex_collections ex_scope_refs None
                                       ex_heap' 2 JNull)) 2)) ''refs''
       = JArr [JStr ''EXT-1''] []"
    by (simp add: ex_heap'_def ex_heap_def)
  from T3 have c6: "t_out (enhancePrepare ex_js ex_collections ex_scope_title None ex_heap' 2 JNull)
       = Returns (Rejected TypeError)"
    by simp
  from a v t ne pp c1 c2 c3 l2 c4 c5 l3 c6 show ?thesis by blast
qed

text \<open>
  C8 does not hold of the code. The test of line 105 counts the entries of
  \<^verbatim>\<open>parentFields\<close> after the local key has been pushed; it does not look at them. When
  the caller lists the parent collection's local-key field itself as the only parent
  field, the array is \<^verbatim>\<open>['id', 'id']\<close>: the configured fields contain no field other
  than the local key, and yet \<^verbatim>\<open>onParentUpdated\<close> is set, and on a parent update it
  rewrites the children's snapshot with the local key alone, the update the comment of
  line 106 says the joint does not worry about. In general the slot is set exactly when
  the configured array is non-empty, and then holds the function of line 58
  (\<open>joint_onParentUpdated\<close>).
\<close>

theorem onParentUpdated_set_for_key_only:
  "configured_parentFields ex_heap_key_only ex_options
     = [parent_getLocalKeyField ex_collections]
   \<and> \<not> isl (k_out (joint ex_collections ex_heap_key_only ex_options))
   \<and> read_arr (k_heap (joint ex_collections ex_heap_key_only ex_options))
        (parentFields (j_scope (projr (k_out (joint ex_collections ex_heap_key_only ex_options)))))
       = [''id'', ''id'']
   \<and> j_onParentUpdated (projr (k_out (joint ex_collections ex_heap_key_only ex_options)))
       = Some BaseOnParentInserted
   \<and> calls (run_hook ex_collections
               (k_heap (joint ex_collections ex_heap_key_only ex_options))
               (projr (k_out (joint ex_collections ex_heap_key_only ex_options)))
               BaseOnParentInserted ex_parent)
       = [ChildUpdate (JObj [(''parent'', JObj [(''id'', JStr ''P1'')])])
                      (JObj [(''fk'', JStr ''EXT-1'')])]"
  by (simp add: joint_def configured_parentFields_def checkOptions_def Let_def
      onParentInserted_base_def extractNamedFields_def
      ex_collections_def ex_heap_def ex_heap_key_only_def ex_options_def ex_parent_def)

text \<open>
  C9. For a joint built by \<^verbatim>\<open>joint\<close>, a falsy value at \<^verbatim>\<open>lookupField\<close> counts as no
  foreign key: the enhanced cleanse returns the wrapped transform's output with the
  store as the wrapped transform left it and without any call, and whatever function
  sits in the slots \<^verbatim>\<open>onChildInserted\<close>, \<^verbatim>\<open>onChildUpdated\<close>, \<^verbatim>\<open>onChildRemoved\<close> makes no
  call, drops no promise and returns \<^verbatim>\<open>undefined\<close>. The empty string, \<open>0\<close>, \<^verbatim>\<open>false\<close>,
  \<^verbatim>\<open>null\<close> and \<^verbatim>\<open>undefined\<close> are all falsy.
\<close>

theorem falsy_foreign_key_is_absent:
  assumes "k_out (joint cs hc opts) = Inr j"
    and "\<not> truthy fk"
  shows "(wrapped_cleanse cleanse h input = (hw, Returns (Resolved cleaned))
           \<and> objectPath_get hw (JRef cleaned) (lookupField (j_scope j)) = fk
          \<longrightarrow> enhanceCleanse cs (j_scope j) cleanse h input
                = \<lparr>t_heap = hw, t_calls = [], t_out = Returns (Resolved cleaned)\<rparr>)
       \<and> (objectPath_get h (JObj child) (lookupField (j_scope j)) = fk
          \<longrightarrow> (\<forall>f. j_onChildInserted j = Some f \<or> j_onChildUpdated j = Some f
                     \<or> j_onChildRemoved j = Some f
                 \<longrightarrow> run_hook cs h j f child
                      = \<lparr>calls = [], dropped = [], returned = RetUndefined\<rparr>))
       \<and> list_all (\<lambda>v. \<not> truthy v) [JStr [], JNum 0, JBool False, JNull, JUndefined]"
proof -
  have c: "wrapped_cleanse cleanse h input = (hw, Returns (Resolved cleaned))
           \<and> objectPath_get hw (JRef cleaned) (lookupField (j_scope j)) = fk
          \<longrightarrow> enhanceCleanse cs (j_scope j) cleanse h input
                = \<lparr>t_heap = hw, t_calls = [], t_out = Returns (Resolved cleaned)\<rparr>"
    using assms(2) by (auto simp: enhanceCleanse_def cleanse_then_def)
  have slots: "\<And>f. j_onChildInserted j = Some f \<or> j_onChildUpdated j = Some f
                     \<or> j_onChildRemoved j = Some f
               \<Longrightarrow> (\<exists>rl. f = OnChildUpsert rl) \<or> (\<exists>rl. f = OnChildRemoved rl)"
    using assms(1)
    by (auto simp: joint_def Let_def split: if_splits sum.splits option.splits prod.splits)
  have hk: "objectPath_get h (JObj child) (lookupField (j_scope j)) = fk
          \<longrightarrow> (\<forall>f. j_onChildInserted j = Some f \<or> j_onChildUpdated j = Some f
                     \<or> j_onChildRemoved j = Some f
                 \<longrightarrow> run_hook cs h j f child
                      = \<lparr>calls = [], dropped = [], returned = RetUndefined\<rparr>)"
  proof (intro impI allI)
    fix f
    assume g: "objectPath_get h (JObj child) (lookupField (j_scope j)) = fk"
      and "j_onChildInserted j = Some f \<or> j_onChildUpdated j = Some f
                     \<or> j_onChildRemoved j = Some f"
    from slots[OF this(2)] g assms(2)
    show "run_hook cs h j f child = \<lparr>calls = [], dropped = [], returned = RetUndefined\<rparr>"
      by (auto simp: onChildInserted_def onChildRemoved_def)
  qed
  from c hk show ?thesis by simp
qed

theorem falsy_foreign_key_is_absent_witness:
  "k_out (joint ex_collections ex_heap ex_options) = Inr ex_joint
   \<and> \<not> truthy JUndefined
   \<and> \<not> truthy (JStr [])
   \<and> wrapped_cleanse None ex_heap' 1 = (ex_heap', Returns (Resolved 1))
   \<and> objectPath_get ex_heap' (JRef 1) (lookupField (j_scope ex_joint)) = JUndefined
   \<and> enhanceCleanse ex_collections (j_scope ex_joint) None ex_heap' 1
      = \<lparr>t_heap = ex_heap', t_calls = [], t_out = Returns (Resolved 1)\<rparr>
   \<and> objectPath_get ex_heap' (JObj [(''id'', JStr ''C2''), (''fk'', JStr [])])
        (lookupField (j_scope ex_joint))
      = JStr []
   \<and> j_onChildInserted ex_joint = Some (OnChildUpsert ex_related)
   \<and> run_hook ex_collections ex_heap' ex_joint (OnChildUpsert ex_related)
        [(''id'', JStr ''C2''), (''fk'', JStr [])]
      = \<lparr>calls = [], dropped = [], returned = RetUndefined\<rparr>
   \<and> j_onChildRemoved ex_joint = Some (OnChildRemoved ex_related)
   \<and> run_hook ex_collections ex_heap' ex_joint (OnChildRemoved ex_related)
        [(''id'', JStr ''C2''), (''fk'', JStr [])]
      = \<lparr>calls = [], dropped = [], returned = RetUndefined\<rparr>"
proof -
  let ?child = "[(''id'', JStr ''C2''), (''fk'', JStr [])]"
  have a: "k_out (joint ex_collections ex_heap ex_options) = Inr ex_joint"
    by (simp add: joint_ex)
  have u: "\<not> truthy JUndefined" and e: "\<not> truthy (JStr [])" by simp_all
  have w: "wrapped_cleanse None ex_heap' 1 = (ex_heap', Returns (Resolved 1))"
    by (simp add: wrapped_cleanse_def)
  have g1: "objectPath_get ex_heap' (JRef 1) (lookupField (j_scope ex_joint)) = JUndefined"
    by (simp add: objectPath_get_def getShallowProperty_def ex_defs)
  have g2: "objectPath_get ex_heap' (JObj ?child) (lookupField (j_scope ex_joint)) = JStr []"
    by (simp add: objectPath_get_def getShallowProperty_def ex_defs)
  have s1: "j_onChildInserted ex_joint = Some (OnChildUpsert ex_related)"
    and s2: "j_onChildRemoved ex_joint = Some (OnChildRemoved ex_related)"
    by (simp_all add: ex_joint_def)
  note T1 = falsy_foreign_key_is_absent[OF a u, where cleanse = None and h = ex_heap'
               and input = 1 and hw = ex_heap' and cleaned = 1]
  note T2 = falsy_foreign_key_is_absent[OF a e, where child = ?child and h = ex_heap']
  from T1 w g1 have c: "enhanceCleanse ex_collections (j_scope ex_joint) None ex_heap' 1
      = \<lparr>t_heap = ex_heap', t_calls = [], t_out = Returns (Resolved 1)\<rparr>"
    by blast
  from T2 g2 s1 have h1: "run_hook ex_collections ex_heap' ex_joint (OnChildUpsert ex_related) ?child
      = \<lparr>calls = [], dropped = [], returned = RetUndefined\<rparr>"
    by blast
  from T2 g2 s2 have h2: "run_hook ex_collections ex_heap' ex_joint (OnChildRemoved ex_related) ?child
      = \<lparr>calls = [], dropped = [], returned = RetUndefined\<rparr>"
    by blast
  from a u e w g1 c g2 s1 h1 s2 h2 show ?thesis by blast
qed




end
